theory Spec2Isabelle
  imports Main
begin

section \<open>Entities exchanged between server and client\<close>

text \<open>
  The shapes follow \<^verbatim>\<open>src/types/index.ts\<close>. Identifiers are MongoDB object ids that
  travel as strings. A task that reaches the client through a mutation response or a
  pushed event carries its project populated with \<^verbatim>\<open>name color\<close> (and the id), its
  assignee and its creator populated with \<^verbatim>\<open>name email avatar\<close>.
\<close>

datatype status = Todo | In_progress | Done

datatype priority = Low | Medium | High

record user =
  u_id :: string
  u_name :: string
  u_email :: string
  u_avatar :: string

record project_ref =
  p_id :: string
  p_name :: string
  p_color :: string

record task =
  t_id :: string
  t_title :: string
  t_description :: string
  t_status :: status
  t_priority :: priority
  t_assignee :: "user option"
  t_project :: project_ref
  t_dueDate :: "string option"
  t_tags :: "string list"
  t_createdBy :: user

section \<open>The project view and its task list (ProjectDetail.tsx)\<close>

text \<open>
  The form behind the "new task" dialog (\<^verbatim>\<open>Partial<CreateTaskData>\<close>) and the part of
  the component state that the task handlers read or write. The route parameter
  \<^verbatim>\<open>id\<close> is \<^verbatim>\<open>string | undefined\<close>; it is passed to every handler as a
  \<^typ>\<open>string option\<close>. Console output is not part of the state.
\<close>

record new_task_form =
  nt_title :: "string option"
  nt_description :: "string option"
  nt_project :: "string option"
  nt_status :: "status option"
  nt_priority :: "priority option"
  nt_assignee :: "string option"
  nt_dueDate :: "string option"
  nt_tags :: "string list option"

record create_task_data =
  ct_title :: string
  ct_description :: string
  ct_project :: string
  ct_status :: status
  ct_priority :: priority
  ct_assignee :: "string option"
  ct_dueDate :: "string option"
  ct_tags :: "string list"

record view =
  tasks :: "task list"
  loading :: bool
  showTaskModal :: bool
  newTask :: new_task_form

text \<open>JavaScript's \<^verbatim>\<open>!id\<close> for \<^verbatim>\<open>string | undefined\<close>: undefined or the empty string.\<close>

definition falsy :: "string option \<Rightarrow> bool" where
  "falsy s = (case s of None \<Rightarrow> True | Some v \<Rightarrow> v = [])"

subsection \<open>The three state updaters handed to setTasks\<close>

text \<open>
  \<^verbatim>\<open>prev => prev.some(t => t._id === task._id) ? prev : [task, ...prev]\<close>
  (used by the task-created listener and by handleCreateTask).
\<close>

definition prepend_unless_exists :: "task \<Rightarrow> task list \<Rightarrow> task list" where
  "prepend_unless_exists task prev =
     (let exists = list_ex (\<lambda>t. t_id t = t_id task) prev
      in if exists then prev else task # prev)"

text \<open>\<^verbatim>\<open>prev => prev.map(t => t._id === taskId ? updated : t)\<close>\<close>

definition replace_by_id :: "string \<Rightarrow> task \<Rightarrow> task list \<Rightarrow> task list" where
  "replace_by_id taskId updated prev =
     map (\<lambda>t. if t_id t = taskId then updated else t) prev"

text \<open>\<^verbatim>\<open>prev => prev.filter(t => t._id !== taskId)\<close>\<close>

definition remove_by_id :: "string \<Rightarrow> task list \<Rightarrow> task list" where
  "remove_by_id taskId prev = filter (\<lambda>t. t_id t \<noteq> taskId) prev"

subsection \<open>Listeners for pushed task events\<close>

text \<open>
  Each listener compares the project of the event with the route parameter and only
  then updates the list. \<^verbatim>\<open>task.project._id === id\<close> is false when \<^verbatim>\<open>id\<close> is
  undefined.
\<close>

definition on_task_created :: "string option \<Rightarrow> task \<Rightarrow> view \<Rightarrow> view" where
  "on_task_created vid task st =
     (if Some (p_id (t_project task)) = vid
      then st\<lparr>tasks := prepend_unless_exists task (tasks st)\<rparr>
      else st)"

definition on_task_updated :: "string option \<Rightarrow> task \<Rightarrow> view \<Rightarrow> view" where
  "on_task_updated vid task st =
     (if Some (p_id (t_project task)) = vid
      then st\<lparr>tasks := replace_by_id (t_id task) task (tasks st)\<rparr>
      else st)"

definition on_task_deleted :: "string option \<Rightarrow> string \<Rightarrow> string \<Rightarrow> view \<Rightarrow> view" where
  "on_task_deleted vid taskId projectId st =
     (if Some projectId = vid
      then st\<lparr>tasks := remove_by_id taskId (tasks st)\<rparr>
      else st)"

subsection \<open>Locally initiated REST calls\<close>

text \<open>
  Every handler is asynchronous: the part before the \<^verbatim>\<open>await\<close> runs on the state at
  the time of the user action, the part after it on the state at the time the call
  settles. The model has one function for each part. A settled call is a value of
  \<^typ>\<open>string + 'a\<close>: \<open>Inl\<close> is the rejected promise (network or HTTP error), which the
  handler's \<^verbatim>\<open>catch\<close> only prints. The part after the \<^verbatim>\<open>await\<close> still sees the route
  parameter of the render in which the user acted: handleCreateTask resets the form
  with that \<^verbatim>\<open>id\<close> (\<open>submitted\<close>), whatever project is viewed when the call settles.
\<close>

definition fetchTasks_start :: "string option \<Rightarrow> view \<Rightarrow> view" where
  "fetchTasks_start vid st = (if falsy vid then st else st\<lparr>loading := True\<rparr>)"

definition fetchTasks_settled :: "string + task list \<Rightarrow> view \<Rightarrow> view" where
  "fetchTasks_settled result st =
     (case result of
        Inr data \<Rightarrow> st\<lparr>tasks := data, loading := False\<rparr>
      | Inl err \<Rightarrow> st\<lparr>loading := False\<rparr>)"

definition or_else :: "'a option \<Rightarrow> 'a \<Rightarrow> 'a" where
  "or_else v d = (case v of None \<Rightarrow> d | Some x \<Rightarrow> x)"

text \<open>
  The request handleCreateTask sends, or \<open>None\<close> when it returns before sending
  (\<^verbatim>\<open>if (!id || !newTask.title) return\<close>). \<^verbatim>\<open>newTask.description || ''\<close> is the
  description, or the empty string when there is none.
\<close>

definition handleCreateTask_request :: "string option \<Rightarrow> view \<Rightarrow> create_task_data option" where
  "handleCreateTask_request vid st =
     (case (vid, nt_title (newTask st)) of
        (Some i, Some title) \<Rightarrow>
          if i = [] \<or> title = [] then None
          else Some \<lparr>ct_title = title,
                     ct_description = or_else (nt_description (newTask st)) [],
                     ct_project = i,
                     ct_status = or_else (nt_status (newTask st)) Todo,
                     ct_priority = or_else (nt_priority (newTask st)) Medium,
                     ct_assignee = nt_assignee (newTask st),
                     ct_dueDate = nt_dueDate (newTask st),
                     ct_tags = or_else (nt_tags (newTask st)) []\<rparr>
      | _ \<Rightarrow> None)"

definition blank_form :: "string option \<Rightarrow> new_task_form" where
  "blank_form submitted =
     \<lparr>nt_title = Some [], nt_description = Some [], nt_project = submitted,
      nt_status = Some Todo, nt_priority = Some Medium, nt_assignee = None,
      nt_dueDate = None, nt_tags = Some []\<rparr>"

definition handleCreateTask_settled :: "string option \<Rightarrow> string + task \<Rightarrow> view \<Rightarrow> view" where
  "handleCreateTask_settled submitted result st =
     (case result of
        Inr task \<Rightarrow>
          st\<lparr>tasks := prepend_unless_exists task (tasks st),
             showTaskModal := False,
             newTask := blank_form submitted\<rparr>
      | Inl err \<Rightarrow> st)"

definition handleUpdateTask_settled :: "string \<Rightarrow> string + task \<Rightarrow> view \<Rightarrow> view" where
  "handleUpdateTask_settled taskId result st =
     (case result of
        Inr updated \<Rightarrow> st\<lparr>tasks := replace_by_id taskId updated (tasks st)\<rparr>
      | Inl err \<Rightarrow> st)"

text \<open>
  handleDeleteTask asks \<^verbatim>\<open>window.confirm\<close> first; \<open>confirmed\<close> is the user's answer.
  When the answer is no, no call is made and the state stays as it is.
\<close>

definition handleDeleteTask_settled :: "string \<Rightarrow> bool \<Rightarrow> string + unit \<Rightarrow> view \<Rightarrow> view" where
  "handleDeleteTask_settled taskId confirmed result st =
     (if \<not> confirmed then st
      else case result of
             Inr ok \<Rightarrow> st\<lparr>tasks := remove_by_id taskId (tasks st)\<rparr>
           | Inl err \<Rightarrow> st)"

subsection \<open>Everything that writes the task list\<close>

text \<open>
  The task list is written by the settled fetch, by the three listeners and by the three
  settled mutation calls, and by nothing else. The component stays mounted when the
  route changes from one project to another, so the list outlives a change of the route
  parameter: a history of the view is a list of such steps, each with the route
  parameter at the time it runs, and each run on the state its predecessor left.
\<close>

datatype reconcile_op =
    Fetched "string + task list"
  | Pushed_created task
  | Pushed_updated task
  | Pushed_deleted string string
  | Create_settled "string option" "string + task"
  | Update_settled string "string + task"
  | Delete_settled string bool "string + unit"

fun apply_op :: "string option \<Rightarrow> reconcile_op \<Rightarrow> view \<Rightarrow> view" where
  "apply_op vid (Fetched result) st = fetchTasks_settled result st"
| "apply_op vid (Pushed_created task) st = on_task_created vid task st"
| "apply_op vid (Pushed_updated task) st = on_task_updated vid task st"
| "apply_op vid (Pushed_deleted taskId projectId) st = on_task_deleted vid taskId projectId st"
| "apply_op vid (Create_settled submitted result) st = handleCreateTask_settled submitted result st"
| "apply_op vid (Update_settled taskId result) st = handleUpdateTask_settled taskId result st"
| "apply_op vid (Delete_settled taskId confirmed result) st =
     handleDeleteTask_settled taskId confirmed result st"

fun run_ops :: "(string option \<times> reconcile_op) list \<Rightarrow> view \<Rightarrow> view" where
  "run_ops [] st = st"
| "run_ops ((vid, x) # xs) st = run_ops xs (apply_op vid x st)"

text \<open>
  What the answers of the server look like (routes/tasks.js), the contract the view
  relies on: the list answered by \<^verbatim>\<open>GET /api/tasks/project/:projectId\<close> is a query
  result over a collection keyed by \<^verbatim>\<open>_id\<close>, so its ids are pairwise distinct, and the
  task answered by \<^verbatim>\<open>PUT /api/tasks/:id\<close> is the document found under that id.
\<close>

fun answer_wf :: "reconcile_op \<Rightarrow> bool" where
  "answer_wf (Fetched (Inr data)) = distinct (map t_id data)"
| "answer_wf (Update_settled taskId (Inr updated)) = (t_id updated = taskId)"
| "answer_wf other = True"

text \<open>
  One logical mutation of a task, as the client that made it sees it twice: as the
  settled REST call and as the pushed event. The server sends the same entity on both
  ways; for a deletion the REST answer is only a message and the event carries
  \<^verbatim>\<open>{taskId, projectId}\<close>. A task is created in the project whose view submitted
  the form (\<^verbatim>\<open>project: id\<close> in the request), so the route parameter the create handler
  holds is the project of the task it gets back.
\<close>

datatype mutation =
    Created task
  | Updated task
  | Deleted string string

fun mutation_project :: "mutation \<Rightarrow> string" where
  "mutation_project (Created task) = p_id (t_project task)"
| "mutation_project (Updated task) = p_id (t_project task)"
| "mutation_project (Deleted taskId projectId) = projectId"

fun rest_path :: "mutation \<Rightarrow> reconcile_op" where
  "rest_path (Created task) = Create_settled (Some (p_id (t_project task))) (Inr task)"
| "rest_path (Updated task) = Update_settled (t_id task) (Inr task)"
| "rest_path (Deleted taskId projectId) = Delete_settled taskId True (Inr ())"

fun push_path :: "mutation \<Rightarrow> reconcile_op" where
  "push_path (Created task) = Pushed_created task"
| "push_path (Updated task) = Pushed_updated task"
| "push_path (Deleted taskId projectId) = Pushed_deleted taskId projectId"

section \<open>The client event bus (services/socket.ts)\<close>

text \<open>
  The keys of \<^verbatim>\<open>SocketEvents\<close>, and what a pushed event carries.
\<close>

datatype event_kind =
    Task_created | Task_updated | Task_deleted
  | Project_created | Project_updated | Project_deleted
  | Project_member_added | Project_member_removed

definition all_kinds :: "event_kind list" where
  "all_kinds = [Task_created, Task_updated, Task_deleted, Project_created, Project_updated,
     Project_deleted, Project_member_added, Project_member_removed]"

record project =
  pr_id :: string
  pr_name :: string
  pr_description :: string
  pr_owner :: user
  pr_members :: "user list"
  pr_color :: string

datatype event_data =
    Task_data task
  | Task_deleted_data string string
  | Project_data project
  | Project_deleted_data string
  | Member_added_data project user
  | Member_removed_data project string

text \<open>
  A listener is a JavaScript function object: \<open>l_ref\<close> is its identity (what
  \<^verbatim>\<open>indexOf\<close> compares), \<open>l_run\<close> what a call of it does. A call either returns or
  throws, and in both cases it may have changed the application state before. The
  service is a module-level singleton with public methods, so a call may also have
  used them: the second component of the result lists the calls of \<^verbatim>\<open>on\<close>, \<^verbatim>\<open>off\<close>
  and \<^verbatim>\<open>disconnect\<close> the listener made, in their order.
\<close>

datatype 'a outcome = Returned 'a | Threw string 'a

datatype 'a listener =
  Listener (l_ref: nat) (l_run: "event_data \<Rightarrow> 'a \<Rightarrow> 'a outcome \<times> 'a command list")
and 'a command =
    On event_kind "'a listener"
  | Off event_kind nat
  | Disconnect

text \<open>
  \<^verbatim>\<open>listeners: Map<string, Function[]>\<close>. The arrays are objects of their own: the map
  holds a reference to the array of a kind, \<^verbatim>\<open>push\<close> and \<^verbatim>\<open>splice\<close> change the array in
  place, and \<^verbatim>\<open>clear\<close> empties the map without touching the arrays. \<open>arrays\<close> is the
  store of the array objects, \<open>allocated\<close> the number of arrays created so far.
\<close>

record 'a socket_service =
  socket :: "bool option"
  listeners :: "event_kind \<Rightarrow> nat option"
  arrays :: "nat \<Rightarrow> 'a listener list"
  allocated :: nat

definition new_service :: "'a socket_service" where
  "new_service = \<lparr>socket = None, listeners = Map.empty, arrays = (\<lambda>a. []), allocated = 0\<rparr>"

text \<open>
  The world a dispatch runs in: the application state the listeners act on, the lines
  written by \<^verbatim>\<open>console.error\<close>, the record of the calls made so far (the identity of
  each listener called, the data it was given and the exception it threw, if it threw
  one, in the order of the calls), and the service.
\<close>

type_synonym call_record = "nat \<times> event_data \<times> string option"

record 'a world =
  app :: 'a
  console :: "string list"
  called :: "call_record list"
  service :: "'a socket_service"

definition on :: "event_kind \<Rightarrow> 'a listener \<Rightarrow> 'a socket_service \<Rightarrow> 'a socket_service" where
  "on event callback svc =
     (let svc1 = (case listeners svc event of
                    None \<Rightarrow> svc\<lparr>listeners := (listeners svc)(event \<mapsto> allocated svc),
                                 arrays := (arrays svc)(allocated svc := []),
                                 allocated := Suc (allocated svc)\<rparr>
                  | Some a \<Rightarrow> svc)
      in case listeners svc1 event of
           None \<Rightarrow> svc1
         | Some a \<Rightarrow> svc1\<lparr>arrays := (arrays svc1)(a := arrays svc1 a @ [callback])\<rparr>)"

text \<open>\<^verbatim>\<open>indexOf\<close> and \<^verbatim>\<open>splice(index, 1)\<close>: the first element with that identity goes.\<close>

fun splice_first :: "nat \<Rightarrow> 'a listener list \<Rightarrow> 'a listener list" where
  "splice_first r [] = []"
| "splice_first r (l # ls) = (if l_ref l = r then ls else l # splice_first r ls)"

definition off :: "event_kind \<Rightarrow> nat \<Rightarrow> 'a socket_service \<Rightarrow> 'a socket_service" where
  "off event callback svc =
     (case listeners svc event of
        None \<Rightarrow> svc
      | Some a \<Rightarrow> svc\<lparr>arrays := (arrays svc)(a := splice_first callback (arrays svc a))\<rparr>)"

text \<open>
  \<^verbatim>\<open>disconnect\<close>: closes and drops the socket when there is one, and clears the
  registry in any case.
\<close>

definition disconnect :: "'a socket_service \<Rightarrow> 'a socket_service" where
  "disconnect svc = svc\<lparr>socket := None, listeners := Map.empty\<rparr>"

fun perform :: "'a command \<Rightarrow> 'a socket_service \<Rightarrow> 'a socket_service" where
  "perform (On event callback) svc = on event callback svc"
| "perform (Off event callback) svc = off event callback svc"
| "perform Disconnect svc = disconnect svc"

text \<open>
  A loop in which the function is called on each element in turn; an exception that
  leaves a call ends the loop and leaves the loop.
\<close>

fun forEach :: "('b \<Rightarrow> 'w \<Rightarrow> 'w outcome) \<Rightarrow> 'b list \<Rightarrow> 'w \<Rightarrow> 'w outcome" where
  "forEach f [] w = Returned w"
| "forEach f (x # xs) w =
     (case f x w of
        Returned w' \<Rightarrow> forEach f xs w'
      | Threw e w' \<Rightarrow> Threw e w')"

text \<open>
  The call \<^verbatim>\<open>(callback as any)(data)\<close>: run on the application state; what the
  listener did to the service is done to the service; the call is recorded with the
  way it ended.
\<close>

definition call :: "'a listener \<Rightarrow> event_data \<Rightarrow> 'a world \<Rightarrow> 'a world outcome" where
  "call callback data w =
     (case l_run callback data (app w) of
        (Returned a, cmds) \<Rightarrow>
          Returned (w\<lparr>app := a, service := fold perform cmds (service w),
                      called := called w @ [(l_ref callback, data, None)]\<rparr>)
      | (Threw e a, cmds) \<Rightarrow>
          Threw e (w\<lparr>app := a, service := fold perform cmds (service w),
                     called := called w @ [(l_ref callback, data, Some e)]\<rparr>))"

fun kind_name :: "event_kind \<Rightarrow> string" where
  "kind_name Task_created = ''task-created''"
| "kind_name Task_updated = ''task-updated''"
| "kind_name Task_deleted = ''task-deleted''"
| "kind_name Project_created = ''project-created''"
| "kind_name Project_updated = ''project-updated''"
| "kind_name Project_deleted = ''project-deleted''"
| "kind_name Project_member_added = ''project-member-added''"
| "kind_name Project_member_removed = ''project-member-removed''"

definition error_line :: "event_kind \<Rightarrow> string \<Rightarrow> string" where
  "error_line event error =
     ''Error in socket event listener for '' @ kind_name event @ '': '' @ error"

text \<open>The body of the loop in \<^verbatim>\<open>emit\<close>: \<^verbatim>\<open>try { callback(data) } catch (error) { console.error(...) }\<close>\<close>

definition guarded_call ::
  "event_kind \<Rightarrow> event_data \<Rightarrow> 'a listener \<Rightarrow> 'a world \<Rightarrow> 'a world outcome" where
  "guarded_call event data callback w =
     (case call callback data w of
        Returned w' \<Rightarrow> Returned w'
      | Threw error w' \<Rightarrow> Returned (w'\<lparr>console := console w' @ [error_line event error]\<rparr>))"

text \<open>
  \<^verbatim>\<open>eventListeners.forEach(...)\<close> runs over the array object itself. As
  \<^verbatim>\<open>Array.prototype.forEach\<close> does, it reads the length once, before the first call,
  and then visits the indices below it in turn; at each index it calls the element
  that the array holds there at that moment, and passes over an index the array no
  longer has.
\<close>

definition visit ::
  "event_kind \<Rightarrow> event_data \<Rightarrow> nat \<Rightarrow> nat \<Rightarrow> 'a world \<Rightarrow> 'a world outcome" where
  "visit event data a k w =
     (if k < length (arrays (service w) a)
      then guarded_call event data (arrays (service w) a ! k) w
      else Returned w)"

definition emit :: "event_kind \<Rightarrow> event_data \<Rightarrow> 'a world \<Rightarrow> 'a world outcome" where
  "emit event data w =
     (case listeners (service w) event of
        None \<Rightarrow> Returned w
      | Some a \<Rightarrow> forEach (visit event data a) [0..<length (arrays (service w) a)] w)"

text \<open>The listeners registered for a kind, in the order of their registration.\<close>

definition registered :: "'a socket_service \<Rightarrow> event_kind \<Rightarrow> 'a listener list" where
  "registered svc event = (case listeners svc event of None \<Rightarrow> [] | Some a \<Rightarrow> arrays svc a)"

text \<open>
  The invariant of the registry: every kind that has an array has one of its own, and
  it is one of the arrays created so far.
\<close>

definition service_wf :: "'a socket_service \<Rightarrow> bool" where
  "service_wf svc =
     (list_all (\<lambda>k. case listeners svc k of None \<Rightarrow> True | Some a \<Rightarrow> a < allocated svc) all_kinds \<and>
      distinct (List.map_filter (listeners svc) all_kinds))"

text \<open>What a call leaves behind, whether it returned or threw.\<close>

fun after :: "'w outcome \<Rightarrow> 'w" where
  "after (Returned w) = w"
| "after (Threw e w) = w"

fun state_after :: "'a outcome \<times> 'c \<Rightarrow> 'a" where
  "state_after (Returned a, cmds) = a"
| "state_after (Threw e a, cmds) = a"

fun thrown :: "event_kind \<Rightarrow> 'a outcome \<times> 'c \<Rightarrow> string list" where
  "thrown event (Returned a, cmds) = []"
| "thrown event (Threw e a, cmds) = [error_line event e]"

fun exception :: "'a outcome \<times> 'c \<Rightarrow> string option" where
  "exception (Returned a, cmds) = None"
| "exception (Threw e a, cmds) = Some e"

text \<open>The console line that a recorded call stands for: one for a call that threw.\<close>

fun line_of :: "event_kind \<Rightarrow> call_record \<Rightarrow> string list" where
  "line_of event (r, data, None) = []"
| "line_of event (r, data, Some e) = [error_line event e]"

text \<open>
  The calls and the console lines of a dispatch in which every listener of the list is
  called in turn, each on the application state its predecessor left.
\<close>

fun calls :: "event_data \<Rightarrow> 'a listener list \<Rightarrow> 'a \<Rightarrow> call_record list" where
  "calls data [] a = []"
| "calls data (l # ls) a =
     (l_ref l, data, exception (l_run l data a)) # calls data ls (state_after (l_run l data a))"

fun logged :: "event_kind \<Rightarrow> event_data \<Rightarrow> 'a listener list \<Rightarrow> 'a \<Rightarrow> string list" where
  "logged event data [] a = []"
| "logged event data (l # ls) a =
     thrown event (l_run l data a) @ logged event data ls (state_after (l_run l data a))"

text \<open>
  A call of \<^verbatim>\<open>off\<close> unregisters a listener of a kind when it names that kind and finds
  the callback in the list of the kind. \<open>undisturbed\<close> follows the dispatch of an event
  through the listeners of its kind, each called on the states the dispatch really
  reaches, and holds when none of the calls of \<^verbatim>\<open>off\<close> they make on the way
  unregisters a listener of that kind.
\<close>

fun unregisters :: "event_kind \<Rightarrow> 'a command \<Rightarrow> 'a socket_service \<Rightarrow> bool" where
  "unregisters event (Off k callback) svc =
     (k = event \<and> callback \<in> set (map l_ref (registered svc event)))"
| "unregisters event (On k callback) svc = False"
| "unregisters event Disconnect svc = False"

fun no_removal :: "event_kind \<Rightarrow> 'a command list \<Rightarrow> 'a socket_service \<Rightarrow> bool" where
  "no_removal event [] svc = True"
| "no_removal event (c # cs) svc =
     (\<not> unregisters event c svc \<and> no_removal event cs (perform c svc))"

fun undisturbed ::
  "event_kind \<Rightarrow> event_data \<Rightarrow> 'a listener list \<Rightarrow> 'a \<Rightarrow> 'a socket_service \<Rightarrow> bool" where
  "undisturbed event data [] a svc = True"
| "undisturbed event data (l # ls) a svc =
     (no_removal event (snd (l_run l data a)) svc \<and>
      undisturbed event data ls (state_after (l_run l data a))
        (fold perform (snd (l_run l data a)) svc))"

text \<open>
  What \<open>visit\<close> relies on while it runs over the array \<open>a\<close> of a kind: the array still
  begins with the listeners it held when the dispatch began, and no other kind has got
  hold of it.
\<close>

definition keeps :: "nat \<Rightarrow> event_kind \<Rightarrow> 'a listener list \<Rightarrow> 'a socket_service \<Rightarrow> bool" where
  "keeps a event orig svc =
     (take (length orig) (arrays svc a) = orig \<and> a < allocated svc \<and>
      (\<forall>k b. listeners svc k = Some b \<longrightarrow> b < allocated svc) \<and>
      (\<forall>k. listeners svc k = Some a \<longrightarrow> k = event))"

section \<open>The mutation routes of the server (routes/tasks.js, routes/projects.js)\<close>

subsection \<open>Documents, collections and what a request leaves behind\<close>

text \<open>
  Documents hold references as ids. A field that the request body may leave undefined
  is an option. The users collection is kept with the fields the routes select
  (\<^verbatim>\<open>name email avatar\<close> and the id). Time stamps are left out. A due date stands
  for the instant it denotes: two spellings of one instant are one value.
\<close>

record project_doc =
  pd_id :: string
  pd_name :: "string option"
  pd_description :: "string option"
  pd_owner :: string
  pd_members :: "string list"
  pd_color :: string

record task_doc =
  td_id :: string
  td_title :: "string option"
  td_description :: "string option"
  td_project :: string
  td_status :: status
  td_priority :: priority
  td_assignee :: "string option"
  td_dueDate :: "string option"
  td_tags :: "string list"
  td_createdBy :: string

text \<open>
  The document object a route holds in memory: the document, and for each reference
  path whether \<^verbatim>\<open>populate\<close> has replaced the id (\<open>Populated\<close>, with \<open>None\<close> for a
  reference that resolves to nothing) or not yet (\<open>Id_only\<close>).
\<close>

datatype 'a path = Id_only | Populated "'a option"

record task_obj =
  to_doc :: task_doc
  to_project :: "project_ref path"
  to_assignee :: "user path"
  to_createdBy :: "user path"

record project_obj =
  po_doc :: project_doc
  po_owner :: "user path"
  po_members :: "user list option"

definition task_assembled :: "task_obj \<Rightarrow> bool" where
  "task_assembled obj =
     (to_project obj \<noteq> Id_only \<and> to_assignee obj \<noteq> Id_only \<and> to_createdBy obj \<noteq> Id_only)"

definition project_assembled :: "project_obj \<Rightarrow> bool" where
  "project_assembled obj = (po_owner obj \<noteq> Id_only \<and> po_members obj \<noteq> None)"

datatype db_write =
    Save_task string
  | Save_project string
  | Delete_task string
  | Delete_tasks_of string
  | Delete_project string

datatype payload =
    Task_payload task_obj
  | Task_deleted_payload string string
  | Project_payload project_obj
  | Project_deleted_payload string
  | Member_added_payload project_obj user
  | Member_removed_payload project_obj string

datatype body =
    Message string
  | Validation_failed "string list"
  | Task_body task_obj
  | Project_body project_obj

text \<open>
  What a request does that outlasts it, in the order it happens: a write that the
  database has committed, and an event handed to \<^verbatim>\<open>io.to(room).emit(kind, payload)\<close>.
\<close>

datatype effect =
    Committed db_write
  | Emitted string event_kind payload

record server =
  projects :: "project_doc list"
  task_docs :: "task_doc list"
  users :: "user list"
  awaited :: nat
  trace :: "effect list"

text \<open>
  A request: the authenticated user (\<^verbatim>\<open>req.user._id\<close>), the errors found by the
  validators of the route (\<^verbatim>\<open>validationResult(req)\<close>), the route parameters, the id
  a newly constructed document receives, and the fields of the body.
\<close>

record fields =
  b_title :: "string option"
  b_description :: "string option"
  b_project :: string
  b_status :: "status option"
  b_priority :: "priority option"
  b_assignee :: "string option"
  b_dueDate :: "string option"
  b_tags :: "string list option"
  b_name :: "string option"
  b_color :: "string option"
  b_email :: string

record request =
  rq_user :: string
  rq_errors :: "string list"
  rq_id :: string
  rq_memberId :: string
  rq_new_id :: string
  rq_body :: fields

subsection \<open>Steps of a route\<close>

text \<open>
  A step runs on the server state and either yields a value or ends the request with
  a response (\<open>Inl\<close>): an early \<^verbatim>\<open>return res.status(...)\<close>, or the \<^verbatim>\<open>catch\<close> of the route
  answering 500 after something threw. Every awaited database call may reject, for
  whatever reason (a lost connection, an id that cannot be cast, a schema validation
  that fails, a duplicate key); which ones do is given by \<open>fails\<close>, indexed by the
  number of calls the server has awaited before. A call that rejects changes nothing.
\<close>

type_synonym response = "nat \<times> body"

type_synonym 'a step = "server \<Rightarrow> (response + 'a) \<times> server"

definition server_error :: response where
  "server_error = (500, Message ''Server error'')"

definition await :: "(nat \<Rightarrow> bool) \<Rightarrow> (server \<Rightarrow> 'a \<times> server) \<Rightarrow> 'a step" where
  "await fails db_call s =
     (let s1 = s\<lparr>awaited := Suc (awaited s)\<rparr>
      in if fails (awaited s) then (Inl server_error, s1)
         else case db_call s1 of (a, s2) \<Rightarrow> (Inr a, s2))"

definition and_then :: "'a step \<Rightarrow> ('a \<Rightarrow> 'b step) \<Rightarrow> 'b step" where
  "and_then m f s = (case m s of (Inl r, s') \<Rightarrow> (Inl r, s') | (Inr a, s') \<Rightarrow> f a s')"

definition respond :: "nat \<Rightarrow> body \<Rightarrow> 'a step" where
  "respond code b s = (Inl (code, b), s)"

definition io_emit :: "string \<Rightarrow> event_kind \<Rightarrow> payload \<Rightarrow> unit step" where
  "io_emit room kind data s = (Inr (), s\<lparr>trace := trace s @ [Emitted room kind data]\<rparr>)"

definition route :: "unit step \<Rightarrow> server \<Rightarrow> response \<times> server" where
  "route h s = (case h s of (Inl r, s') \<Rightarrow> (r, s') | (Inr u, s') \<Rightarrow> (server_error, s'))"

definition room_of :: "string \<Rightarrow> string" where
  "room_of projectId = ''project-'' @ projectId"

definition truthy :: "string option \<Rightarrow> bool" where
  "truthy v = (case v of None \<Rightarrow> False | Some x \<Rightarrow> x \<noteq> [])"

subsection \<open>Database calls\<close>

definition commit :: "db_write \<Rightarrow> server \<Rightarrow> server" where
  "commit w s = s\<lparr>trace := trace s @ [Committed w]\<rparr>"

text \<open>\<^verbatim>\<open>Project.findOne({_id, $or: [{owner: user}, {members: user}]})\<close>\<close>

definition Project_findOne_access :: "string \<Rightarrow> string \<Rightarrow> server \<Rightarrow> project_doc option \<times> server" where
  "Project_findOne_access pid uid s =
     (find (\<lambda>p. pd_id p = pid \<and> (pd_owner p = uid \<or> uid \<in> set (pd_members p))) (projects s), s)"

text \<open>\<^verbatim>\<open>Project.findOne({_id, owner: user})\<close>\<close>

definition Project_findOne_owner :: "string \<Rightarrow> string \<Rightarrow> server \<Rightarrow> project_doc option \<times> server" where
  "Project_findOne_owner pid uid s =
     (find (\<lambda>p. pd_id p = pid \<and> pd_owner p = uid) (projects s), s)"

definition Task_findById :: "string \<Rightarrow> server \<Rightarrow> task_doc option \<times> server" where
  "Task_findById tid s = (find (\<lambda>t. td_id t = tid) (task_docs s), s)"

definition User_findOne_email :: "string \<Rightarrow> server \<Rightarrow> user option \<times> server" where
  "User_findOne_email email s = (find (\<lambda>u. u_email u = email) (users s), s)"

fun replace_first :: "('a \<Rightarrow> bool) \<Rightarrow> 'a \<Rightarrow> 'a list \<Rightarrow> 'a list" where
  "replace_first P y [] = []"
| "replace_first P y (x # xs) = (if P x then y # xs else x # replace_first P y xs)"

fun delete_first :: "('a \<Rightarrow> bool) \<Rightarrow> 'a list \<Rightarrow> 'a list" where
  "delete_first P [] = []"
| "delete_first P (x # xs) = (if P x then xs else x # delete_first P xs)"

text \<open>
  \<^verbatim>\<open>save\<close> of a new document inserts it. \<^verbatim>\<open>save\<close> of a document that was found
  writes the paths that were modified since: an assignment marks a path as modified
  only when it changes the value, and when no path is modified \<^verbatim>\<open>save\<close> resolves
  without a write. \<open>found\<close> is the document as the query returned it.
\<close>

definition insert_task :: "task_obj \<Rightarrow> server \<Rightarrow> task_obj \<times> server" where
  "insert_task obj s =
     (obj, commit (Save_task (td_id (to_doc obj))) (s\<lparr>task_docs := task_docs s @ [to_doc obj]\<rparr>))"

definition save_task :: "task_doc \<Rightarrow> task_obj \<Rightarrow> server \<Rightarrow> task_obj \<times> server" where
  "save_task found obj s =
     (if to_doc obj = found then (obj, s)
      else (obj, commit (Save_task (td_id (to_doc obj)))
                  (s\<lparr>task_docs := replace_first (\<lambda>t. td_id t = td_id (to_doc obj)) (to_doc obj)
                                     (task_docs s)\<rparr>)))"

text \<open>
  The \<^verbatim>\<open>pre('save')\<close> hook of the project schema: a new project whose members do not
  include the owner gets the owner appended.
\<close>

definition pre_save_new :: "project_doc \<Rightarrow> project_doc" where
  "pre_save_new d =
     (if pd_owner d \<notin> set (pd_members d) then d\<lparr>pd_members := pd_members d @ [pd_owner d]\<rparr> else d)"

definition insert_project :: "project_obj \<Rightarrow> server \<Rightarrow> project_obj \<times> server" where
  "insert_project obj s =
     (let d = pre_save_new (po_doc obj)
      in (obj\<lparr>po_doc := d\<rparr>, commit (Save_project (pd_id d)) (s\<lparr>projects := projects s @ [d]\<rparr>)))"

definition save_project :: "project_doc \<Rightarrow> project_obj \<Rightarrow> server \<Rightarrow> project_obj \<times> server" where
  "save_project found obj s =
     (if po_doc obj = found then (obj, s)
      else (obj, commit (Save_project (pd_id (po_doc obj)))
                  (s\<lparr>projects := replace_first (\<lambda>p. pd_id p = pd_id (po_doc obj)) (po_doc obj)
                                    (projects s)\<rparr>)))"

definition Task_findByIdAndDelete :: "string \<Rightarrow> server \<Rightarrow> unit \<times> server" where
  "Task_findByIdAndDelete tid s =
     ((), commit (Delete_task tid) (s\<lparr>task_docs := delete_first (\<lambda>t. td_id t = tid) (task_docs s)\<rparr>))"

definition Task_deleteMany_project :: "string \<Rightarrow> server \<Rightarrow> unit \<times> server" where
  "Task_deleteMany_project pid s =
     ((), commit (Delete_tasks_of pid) (s\<lparr>task_docs := filter (\<lambda>t. td_project t \<noteq> pid) (task_docs s)\<rparr>))"

definition Project_findByIdAndDelete :: "string \<Rightarrow> server \<Rightarrow> unit \<times> server" where
  "Project_findByIdAndDelete pid s =
     ((), commit (Delete_project pid) (s\<lparr>projects := delete_first (\<lambda>p. pd_id p = pid) (projects s)\<rparr>))"

definition ref_of :: "project_doc \<Rightarrow> project_ref" where
  "ref_of d = \<lparr>p_id = pd_id d, p_name = or_else (pd_name d) [], p_color = pd_color d\<rparr>"

definition find_user :: "server \<Rightarrow> string \<Rightarrow> user option" where
  "find_user s uid = find (\<lambda>u. u_id u = uid) (users s)"

definition populate_project :: "task_obj \<Rightarrow> server \<Rightarrow> task_obj \<times> server" where
  "populate_project obj s =
     (obj\<lparr>to_project :=
        Populated (map_option ref_of (find (\<lambda>p. pd_id p = td_project (to_doc obj)) (projects s)))\<rparr>, s)"

definition populate_assignee :: "task_obj \<Rightarrow> server \<Rightarrow> task_obj \<times> server" where
  "populate_assignee obj s =
     (obj\<lparr>to_assignee :=
        Populated (case td_assignee (to_doc obj) of None \<Rightarrow> None | Some uid \<Rightarrow> find_user s uid)\<rparr>, s)"

definition populate_createdBy :: "task_obj \<Rightarrow> server \<Rightarrow> task_obj \<times> server" where
  "populate_createdBy obj s =
     (obj\<lparr>to_createdBy := Populated (find_user s (td_createdBy (to_doc obj)))\<rparr>, s)"

definition populate_owner :: "project_obj \<Rightarrow> server \<Rightarrow> project_obj \<times> server" where
  "populate_owner obj s = (obj\<lparr>po_owner := Populated (find_user s (pd_owner (po_doc obj)))\<rparr>, s)"

definition populate_members :: "project_obj \<Rightarrow> server \<Rightarrow> project_obj \<times> server" where
  "populate_members obj s =
     (obj\<lparr>po_members := Some (List.map_filter (find_user s) (pd_members (po_doc obj)))\<rparr>, s)"

subsection \<open>Task routes\<close>

definition not_member :: "string option \<Rightarrow> string list \<Rightarrow> bool" where
  "not_member assignee members =
     (case assignee of None \<Rightarrow> False | Some a \<Rightarrow> a \<noteq> [] \<and> a \<notin> set members)"

definition new_Task :: "request \<Rightarrow> task_obj" where
  "new_Task rq =
     (let b = rq_body rq in
      \<lparr>to_doc = \<lparr>td_id = rq_new_id rq, td_title = b_title b, td_description = b_description b,
                 td_project = b_project b, td_status = or_else (b_status b) Todo,
                 td_priority = or_else (b_priority b) Medium, td_assignee = b_assignee b,
                 td_dueDate = (if truthy (b_dueDate b) then b_dueDate b else None),
                 td_tags = or_else (b_tags b) [], td_createdBy = rq_user rq\<rparr>,
       to_project = Id_only, to_assignee = Id_only, to_createdBy = Id_only\<rparr>)"

text \<open>\<^verbatim>\<open>POST /api/tasks\<close>\<close>

definition post_task :: "(nat \<Rightarrow> bool) \<Rightarrow> request \<Rightarrow> server \<Rightarrow> response \<times> server" where
  "post_task fails rq =
     route
      (if rq_errors rq \<noteq> [] then respond 400 (Validation_failed (rq_errors rq))
       else
        and_then (await fails (Project_findOne_access (b_project (rq_body rq)) (rq_user rq)))
         (\<lambda>projectDoc. case projectDoc of
            None \<Rightarrow> respond 404 (Message ''Project not found or access denied'')
          | Some pd \<Rightarrow>
              if not_member (b_assignee (rq_body rq)) (pd_members pd)
              then respond 400 (Message ''Assignee must be a member of the project'')
              else
               and_then (await fails (insert_task (new_Task rq))) (\<lambda>t0.
               and_then (await fails (populate_project t0)) (\<lambda>t1.
               and_then (await fails (populate_assignee t1)) (\<lambda>t2.
               and_then (await fails (populate_createdBy t2)) (\<lambda>t3.
               and_then (io_emit (room_of (b_project (rq_body rq))) Task_created (Task_payload t3)) (\<lambda>u.
               respond 201 (Task_body t3))))))))"

text \<open>The assignments of \<^verbatim>\<open>PUT /api/tasks/:id\<close> to the document that was found.\<close>

definition assign_task :: "fields \<Rightarrow> task_doc \<Rightarrow> task_doc" where
  "assign_task b d =
     (let d1 = (if truthy (b_title b) then d\<lparr>td_title := b_title b\<rparr> else d);
          d2 = (if b_description b \<noteq> None then d1\<lparr>td_description := b_description b\<rparr> else d1);
          d3 = (case b_status b of Some v \<Rightarrow> d2\<lparr>td_status := v\<rparr> | None \<Rightarrow> d2);
          d4 = (case b_priority b of Some v \<Rightarrow> d3\<lparr>td_priority := v\<rparr> | None \<Rightarrow> d3);
          d5 = (if b_assignee b \<noteq> None then d4\<lparr>td_assignee := b_assignee b\<rparr> else d4);
          d6 = (if b_dueDate b \<noteq> None
                then d5\<lparr>td_dueDate := (if truthy (b_dueDate b) then b_dueDate b else None)\<rparr>
                else d5)
      in case b_tags b of Some v \<Rightarrow> d6\<lparr>td_tags := v\<rparr> | None \<Rightarrow> d6)"

text \<open>
  \<^verbatim>\<open>PUT /api/tasks/:id\<close>. The room is named after \<^verbatim>\<open>task.project._id\<close> of the populated
  task; when the project reference resolved to nothing, reading \<^verbatim>\<open>_id\<close> throws and the
  \<^verbatim>\<open>catch\<close> answers 500.
\<close>

definition put_task :: "(nat \<Rightarrow> bool) \<Rightarrow> request \<Rightarrow> server \<Rightarrow> response \<times> server" where
  "put_task fails rq =
     route
      (if rq_errors rq \<noteq> [] then respond 400 (Validation_failed (rq_errors rq))
       else
        and_then (await fails (Task_findById (rq_id rq))) (\<lambda>found. case found of
          None \<Rightarrow> respond 404 (Message ''Task not found'')
        | Some d \<Rightarrow>
           and_then (await fails (Project_findOne_access (td_project d) (rq_user rq)))
            (\<lambda>project. case project of
               None \<Rightarrow> respond 404 (Message ''Task not found or access denied'')
             | Some pd \<Rightarrow>
                 if not_member (b_assignee (rq_body rq)) (pd_members pd)
                 then respond 400 (Message ''Assignee must be a member of the project'')
                 else
                  and_then (await fails (save_task d
                     \<lparr>to_doc = assign_task (rq_body rq) d, to_project = Id_only,
                      to_assignee = Id_only, to_createdBy = Id_only\<rparr>)) (\<lambda>t0.
                  and_then (await fails (populate_project t0)) (\<lambda>t1.
                  and_then (await fails (populate_assignee t1)) (\<lambda>t2.
                  and_then (await fails (populate_createdBy t2)) (\<lambda>t3.
                  case to_project t3 of
                    Populated (Some r) \<Rightarrow>
                      and_then (io_emit (room_of (p_id r)) Task_updated (Task_payload t3)) (\<lambda>u.
                      respond 200 (Task_body t3))
                  | _ \<Rightarrow> respond 500 (Message ''Server error''))))))))"

text \<open>\<^verbatim>\<open>DELETE /api/tasks/:id\<close>\<close>

definition delete_task :: "(nat \<Rightarrow> bool) \<Rightarrow> request \<Rightarrow> server \<Rightarrow> response \<times> server" where
  "delete_task fails rq =
     route
      (and_then (await fails (Task_findById (rq_id rq))) (\<lambda>found. case found of
         None \<Rightarrow> respond 404 (Message ''Task not found'')
       | Some d \<Rightarrow>
          and_then (await fails (Project_findOne_access (td_project d) (rq_user rq)))
           (\<lambda>project. case project of
              None \<Rightarrow> respond 404 (Message ''Task not found or access denied'')
            | Some pd \<Rightarrow>
                and_then (io_emit (room_of (td_project d)) Task_deleted
                            (Task_deleted_payload (td_id d) (td_project d))) (\<lambda>u.
                and_then (await fails (Task_findByIdAndDelete (td_id d))) (\<lambda>u.
                respond 200 (Message ''Task deleted successfully''))))))"

subsection \<open>Project routes\<close>

definition new_Project :: "request \<Rightarrow> project_obj" where
  "new_Project rq =
     (let b = rq_body rq in
      \<lparr>po_doc = \<lparr>pd_id = rq_new_id rq, pd_name = b_name b, pd_description = b_description b,
                 pd_owner = rq_user rq, pd_members = [],
                 pd_color = (if truthy (b_color b) then or_else (b_color b) [] else ''#3B82F6'')\<rparr>,
       po_owner = Id_only, po_members = None\<rparr>)"

text \<open>\<^verbatim>\<open>POST /api/projects\<close>\<close>

definition post_project :: "(nat \<Rightarrow> bool) \<Rightarrow> request \<Rightarrow> server \<Rightarrow> response \<times> server" where
  "post_project fails rq =
     route
      (if rq_errors rq \<noteq> [] then respond 400 (Validation_failed (rq_errors rq))
       else
        and_then (await fails (insert_project (new_Project rq))) (\<lambda>p0.
        and_then (await fails (populate_owner p0)) (\<lambda>p1.
        and_then (await fails (populate_members p1)) (\<lambda>p2.
        and_then (io_emit (room_of (pd_id (po_doc p2))) Project_created (Project_payload p2)) (\<lambda>u.
        respond 201 (Project_body p2))))))"

definition assign_project :: "fields \<Rightarrow> project_doc \<Rightarrow> project_doc" where
  "assign_project b d =
     (let d1 = (if truthy (b_name b) then d\<lparr>pd_name := b_name b\<rparr> else d);
          d2 = (if b_description b \<noteq> None then d1\<lparr>pd_description := b_description b\<rparr> else d1)
      in if truthy (b_color b) then d2\<lparr>pd_color := or_else (b_color b) []\<rparr> else d2)"

definition loaded :: "project_doc \<Rightarrow> project_obj" where
  "loaded d = \<lparr>po_doc = d, po_owner = Id_only, po_members = None\<rparr>"

text \<open>\<^verbatim>\<open>PUT /api/projects/:id\<close>\<close>

definition put_project :: "(nat \<Rightarrow> bool) \<Rightarrow> request \<Rightarrow> server \<Rightarrow> response \<times> server" where
  "put_project fails rq =
     route
      (if rq_errors rq \<noteq> [] then respond 400 (Validation_failed (rq_errors rq))
       else
        and_then (await fails (Project_findOne_owner (rq_id rq) (rq_user rq))) (\<lambda>found.
        case found of
          None \<Rightarrow> respond 404 (Message ''Project not found or access denied'')
        | Some d \<Rightarrow>
           and_then (await fails (save_project d (loaded (assign_project (rq_body rq) d)))) (\<lambda>p0.
           and_then (await fails (populate_owner p0)) (\<lambda>p1.
           and_then (await fails (populate_members p1)) (\<lambda>p2.
           and_then (io_emit (room_of (pd_id (po_doc p2))) Project_updated (Project_payload p2)) (\<lambda>u.
           respond 200 (Project_body p2)))))))"

text \<open>\<^verbatim>\<open>DELETE /api/projects/:id\<close>\<close>

definition delete_project :: "(nat \<Rightarrow> bool) \<Rightarrow> request \<Rightarrow> server \<Rightarrow> response \<times> server" where
  "delete_project fails rq =
     route
      (and_then (await fails (Project_findOne_owner (rq_id rq) (rq_user rq))) (\<lambda>found.
       case found of
         None \<Rightarrow> respond 404 (Message ''Project not found or access denied'')
       | Some d \<Rightarrow>
          and_then (await fails (Task_deleteMany_project (pd_id d))) (\<lambda>u.
          and_then (io_emit (room_of (pd_id d)) Project_deleted (Project_deleted_payload (pd_id d))) (\<lambda>u.
          and_then (await fails (Project_findByIdAndDelete (pd_id d))) (\<lambda>u.
          respond 200 (Message ''Project deleted successfully''))))))"

text \<open>\<^verbatim>\<open>POST /api/projects/:id/members\<close>\<close>

definition post_member :: "(nat \<Rightarrow> bool) \<Rightarrow> request \<Rightarrow> server \<Rightarrow> response \<times> server" where
  "post_member fails rq =
     route
      (if rq_errors rq \<noteq> [] then respond 400 (Validation_failed (rq_errors rq))
       else
        and_then (await fails (Project_findOne_owner (rq_id rq) (rq_user rq))) (\<lambda>found.
        case found of
          None \<Rightarrow> respond 404 (Message ''Project not found or access denied'')
        | Some d \<Rightarrow>
           and_then (await fails (User_findOne_email (b_email (rq_body rq)))) (\<lambda>who.
           case who of
             None \<Rightarrow> respond 404 (Message ''User not found'')
           | Some usr \<Rightarrow>
               if u_id usr \<in> set (pd_members d)
               then respond 400 (Message ''User is already a member of this project'')
               else
                and_then (await fails (save_project d
                   (loaded (d\<lparr>pd_members := pd_members d @ [u_id usr]\<rparr>)))) (\<lambda>p0.
                and_then (await fails (populate_owner p0)) (\<lambda>p1.
                and_then (await fails (populate_members p1)) (\<lambda>p2.
                and_then (io_emit (room_of (pd_id (po_doc p2))) Project_member_added
                            (Member_added_payload p2 usr)) (\<lambda>u.
                respond 200 (Project_body p2))))))))"

text \<open>\<^verbatim>\<open>DELETE /api/projects/:id/members/:memberId\<close>\<close>

definition delete_member :: "(nat \<Rightarrow> bool) \<Rightarrow> request \<Rightarrow> server \<Rightarrow> response \<times> server" where
  "delete_member fails rq =
     route
      (and_then (await fails (Project_findOne_owner (rq_id rq) (rq_user rq))) (\<lambda>found.
       case found of
         None \<Rightarrow> respond 404 (Message ''Project not found or access denied'')
       | Some d \<Rightarrow>
          if rq_memberId rq = pd_owner d
          then respond 400 (Message ''Cannot remove project owner'')
          else
           and_then (await fails (save_project d
              (loaded (d\<lparr>pd_members := filter (\<lambda>memberId. memberId \<noteq> rq_memberId rq) (pd_members d)\<rparr>)))) (\<lambda>p0.
           and_then (await fails (populate_owner p0)) (\<lambda>p1.
           and_then (await fails (populate_members p1)) (\<lambda>p2.
           and_then (io_emit (room_of (pd_id (po_doc p2))) Project_member_removed
                       (Member_removed_payload p2 (rq_memberId rq))) (\<lambda>u.
           respond 200 (Project_body p2)))))))"

subsection \<open>Reading the trace of one request\<close>

text \<open>What a route adds to the trace of the server it runs on.\<close>

definition effects_of :: "(server \<Rightarrow> response \<times> server) \<Rightarrow> server \<Rightarrow> effect list" where
  "effects_of h s = drop (length (trace s)) (trace (snd (h s)))"

fun is_commit :: "effect \<Rightarrow> bool" where
  "is_commit (Committed w) = True"
| "is_commit (Emitted room kind data) = False"

fun assembled :: "effect \<Rightarrow> bool" where
  "assembled (Emitted room kind (Task_payload t)) = task_assembled t"
| "assembled (Emitted room kind (Project_payload p)) = project_assembled p"
| "assembled (Emitted room kind (Member_added_payload p usr)) = project_assembled p"
| "assembled (Emitted room kind (Member_removed_payload p memberId)) = project_assembled p"
| "assembled other = True"

text \<open>
  A trace publishes after the commit when every event in it is assembled, comes after
  a committed write and is followed by no further write.
\<close>

fun publishes_after_commit :: "bool \<Rightarrow> effect list \<Rightarrow> bool" where
  "publishes_after_commit seen [] = True"
| "publishes_after_commit seen (Committed w # es) = publishes_after_commit True es"
| "publishes_after_commit seen (Emitted room kind data # es) =
     (seen \<and> assembled (Emitted room kind data) \<and> \<not> list_ex is_commit es
      \<and> publishes_after_commit seen es)"

text \<open>
  An update route saves a document it has found, and the save writes only when the
  request changed the document. \<open>stored s\<close> holds of an event whose document is in the
  collection as it was when the request arrived: such an event tells what the database
  already holds, and there is nothing to commit before it. A trace publishes after the
  save when every event in it is assembled, is followed by no write, and comes after a
  committed write or carries a stored document.
\<close>

fun stored :: "server \<Rightarrow> payload \<Rightarrow> bool" where
  "stored s (Task_payload t) = (to_doc t \<in> set (task_docs s))"
| "stored s (Project_payload p) = (po_doc p \<in> set (projects s))"
| "stored s (Member_added_payload p usr) = (po_doc p \<in> set (projects s))"
| "stored s (Member_removed_payload p memberId) = (po_doc p \<in> set (projects s))"
| "stored s (Task_deleted_payload taskId projectId) = False"
| "stored s (Project_deleted_payload projectId) = False"

fun publishes_after_save :: "server \<Rightarrow> bool \<Rightarrow> effect list \<Rightarrow> bool" where
  "publishes_after_save s seen [] = True"
| "publishes_after_save s seen (Committed w # es) = publishes_after_save s True es"
| "publishes_after_save s seen (Emitted room kind data # es) =
     ((seen \<or> stored s data) \<and> assembled (Emitted room kind data) \<and> \<not> list_ex is_commit es
      \<and> publishes_after_save s seen es)"

text \<open>
  The writes and the events of a successful update, in their order: the write of the
  save when the document the route answers differs from the one it found, then the
  event.
\<close>

definition saved_then_published :: "bool \<Rightarrow> db_write \<Rightarrow> effect \<Rightarrow> effect list" where
  "saved_then_published unchanged w e = (if unchanged then [e] else [Committed w, e])"

text \<open>
  The deletion an event announces, and the traces in which every such event is
  published before that deletion is committed (\<open>finished\<close> holds the writes committed
  so far).
\<close>

fun announces :: "effect \<Rightarrow> db_write \<Rightarrow> bool" where
  "announces (Emitted room kind (Task_deleted_payload taskId projectId)) w = (w = Delete_task taskId)"
| "announces (Emitted room kind (Project_deleted_payload projectId)) w = (w = Delete_project projectId)"
| "announces other w = False"

fun publishes_before_delete :: "db_write list \<Rightarrow> effect list \<Rightarrow> bool" where
  "publishes_before_delete finished [] = True"
| "publishes_before_delete finished (Committed w # es) = publishes_before_delete (w # finished) es"
| "publishes_before_delete finished (Emitted room kind data # es) =
     (\<not> list_ex (announces (Emitted room kind data)) finished
      \<and> publishes_before_delete finished es)"

section \<open>Sample data\<close>

definition sample_user :: user where
  "sample_user = \<lparr>u_id = ''u1'', u_name = ''Ann'', u_email = ''ann@example.org'', u_avatar = []\<rparr>"

definition sample_task :: "string \<Rightarrow> string \<Rightarrow> string \<Rightarrow> task" where
  "sample_task taskId projectId title =
     \<lparr>t_id = taskId, t_title = title, t_description = [], t_status = Todo,
      t_priority = Medium, t_assignee = None,
      t_project = \<lparr>p_id = projectId, p_name = ''Alpha'', p_color = ''#3B82F6''\<rparr>,
      t_dueDate = None, t_tags = [], t_createdBy = sample_user\<rparr>"

definition sample_view :: "task list \<Rightarrow> view" where
  "sample_view ts =
     \<lparr>tasks = ts, loading = False, showTaskModal = False, newTask = blank_form (Some ''p1'')\<rparr>"

text \<open>
  A history in which the route changes from project \<open>p1\<close> to project \<open>p2\<close> while a
  create call is in flight.
\<close>

definition sample_history :: "(string option \<times> reconcile_op) list" where
  "sample_history =
     [(Some ''p1'', Fetched (Inr [sample_task ''a'' ''p1'' ''Plan'', sample_task ''b'' ''p1'' ''Build''])),
      (Some ''p1'', Pushed_created (sample_task ''c'' ''p1'' ''Ship'')),
      (Some ''p1'', Create_settled (Some ''p1'') (Inr (sample_task ''c'' ''p1'' ''Ship''))),
      (Some ''p1'', Update_settled ''a'' (Inr (sample_task ''a'' ''p1'' ''Plan again''))),
      (Some ''p1'', Pushed_updated (sample_task ''a'' ''p1'' ''Plan again'')),
      (Some ''p1'', Delete_settled ''b'' True (Inr ())),
      (Some ''p1'', Pushed_deleted ''b'' ''p1''),
      (Some ''p2'', Create_settled (Some ''p1'') (Inr (sample_task ''d'' ''p1'' ''Test''))),
      (Some ''p2'', Pushed_created (sample_task ''d'' ''p1'' ''Test'')),
      (Some ''p2'', Fetched (Inr [sample_task ''e'' ''p2'' ''Draw''])),
      (Some ''p2'', Pushed_created (sample_task ''f'' ''p2'' ''Paint'')),
      (Some ''p2'', Create_settled (Some ''p2'') (Inl ''Network Error''))]"

definition thrower :: "nat listener" where
  "thrower = Listener 1 (\<lambda>data n. (Threw ''boom'' (n + 1), []))"

definition counter :: "nat listener" where
  "counter = Listener 2 (\<lambda>data n. (Returned (n + 10), []))"

definition leaver :: "nat listener" where
  "leaver = Listener 3 (\<lambda>data n. (Returned (n + 1), [Off Task_updated 3]))"

definition closer :: "nat listener" where
  "closer = Listener 4 (\<lambda>data n. (Returned (n + 100), [Disconnect]))"

text \<open>
  A listener that calls \<^verbatim>\<open>off\<close> with a callback that was never registered, and one
  that unregisters itself only once the count has reached a thousand.
\<close>

definition stranger :: "nat listener" where
  "stranger = Listener 5 (\<lambda>data n. (Returned (n + 1), [Off Task_updated 99]))"

definition patient :: "nat listener" where
  "patient = Listener 6 (\<lambda>data n. (Returned (n + 1), if n = 1000 then [Off Task_updated 6] else []))"

definition sample_service :: "nat socket_service" where
  "sample_service = on Task_updated counter (on Task_updated thrower new_service)"

definition leaving_service :: "nat socket_service" where
  "leaving_service = on Task_updated counter (on Task_updated leaver new_service)"

definition closing_service :: "nat socket_service" where
  "closing_service = on Task_updated counter (on Task_updated closer new_service)"

definition patient_service :: "nat socket_service" where
  "patient_service =
     on Task_updated counter (on Task_updated patient (on Task_updated stranger new_service))"

definition sample_world :: "nat socket_service \<Rightarrow> nat world" where
  "sample_world svc = \<lparr>app = 0, console = [], called = [], service = svc\<rparr>"

definition sample_data :: event_data where
  "sample_data = Task_data (sample_task ''a'' ''p1'' ''Plan again'')"

definition never :: "nat \<Rightarrow> bool" where
  "never n = False"

definition only :: "nat \<Rightarrow> nat \<Rightarrow> bool" where
  "only k n = (n = k)"

definition sample_project :: project_doc where
  "sample_project =
     \<lparr>pd_id = ''p1'', pd_name = Some ''Alpha'', pd_description = None,
      pd_owner = ''u1'', pd_members = [''u1'', ''u2''], pd_color = ''#3B82F6''\<rparr>"

definition sample_server :: server where
  "sample_server =
     \<lparr>projects = [sample_project],
      task_docs = [\<lparr>td_id = ''t1'', td_title = Some ''Plan'', td_description = None,
                     td_project = ''p1'', td_status = Todo, td_priority = Medium,
                     td_assignee = Some ''u2'', td_dueDate = None, td_tags = [],
                     td_createdBy = ''u1''\<rparr>],
      users = [sample_user,
               \<lparr>u_id = ''u2'', u_name = ''Bob'', u_email = ''bob@example.org'', u_avatar = []\<rparr>,
               \<lparr>u_id = ''u3'', u_name = ''Cy'', u_email = ''cy@example.org'', u_avatar = []\<rparr>],
      awaited = 0, trace = []\<rparr>"

definition sample_request :: "string \<Rightarrow> request" where
  "sample_request target =
     \<lparr>rq_user = ''u1'', rq_errors = [], rq_id = target, rq_memberId = ''u1'', rq_new_id = ''t2'',
      rq_body = \<lparr>b_title = Some ''Ship'', b_description = None, b_project = ''p1'',
                  b_status = Some Done, b_priority = None, b_assignee = None, b_dueDate = None,
                  b_tags = None, b_name = Some ''Beta'', b_color = None, b_email = ''cy@example.org''\<rparr>\<rparr>"

text \<open>
  A request that changes nothing: its body names no field, and the member it names is
  not a member.
\<close>

definition idle_request :: "string \<Rightarrow> request" where
  "idle_request target =
     \<lparr>rq_user = ''u1'', rq_errors = [], rq_id = target, rq_memberId = ''u9'', rq_new_id = ''t2'',
      rq_body = \<lparr>b_title = None, b_description = None, b_project = ''p1'',
                  b_status = None, b_priority = None, b_assignee = None, b_dueDate = None,
                  b_tags = None, b_name = None, b_color = None, b_email = ''bob@example.org''\<rparr>\<rparr>"

section \<open>The task list of the view\<close>

lemma list_ex_ids: "list_ex (\<lambda>t. t_id t = k) xs = (k \<in> set (map t_id xs))"
  by (induction xs) auto

lemma prepend_unless_exists_distinct:
  "distinct (map t_id prev) \<Longrightarrow> distinct (map t_id (prepend_unless_exists task prev))"
  by (simp add: prepend_unless_exists_def list_ex_ids)

lemma replace_by_id_ids:
  "t_id updated = taskId \<Longrightarrow> map t_id (replace_by_id taskId updated prev) = map t_id prev"
  by (induction prev) (auto simp: replace_by_id_def)

lemma remove_by_id_distinct:
  "distinct (map t_id prev) \<Longrightarrow> distinct (map t_id (remove_by_id taskId prev))"
  by (simp add: remove_by_id_def distinct_map_filter)

lemma replace_by_id_twice:
  "replace_by_id k u (replace_by_id k u xs) = replace_by_id k u xs"
  by (induction xs) (auto simp: replace_by_id_def)

lemma prepend_unless_exists_twice:
  "prepend_unless_exists t (prepend_unless_exists t xs) = prepend_unless_exists t xs"
  by (simp add: prepend_unless_exists_def)

lemma remove_by_id_twice: "remove_by_id k (remove_by_id k xs) = remove_by_id k xs"
  by (simp add: remove_by_id_def)

lemmas view_defs = fetchTasks_settled_def on_task_created_def on_task_updated_def
  on_task_deleted_def handleCreateTask_settled_def handleUpdateTask_settled_def
  handleDeleteTask_settled_def

lemmas sample_view_defs = sample_view_def sample_task_def sample_user_def
  prepend_unless_exists_def replace_by_id_def remove_by_id_def

lemma apply_op_distinct:
  "answer_wf x \<Longrightarrow> distinct (map t_id (tasks st)) \<Longrightarrow>
   distinct (map t_id (tasks (apply_op vid x st)))"
  by (cases x rule: answer_wf.cases)
     (auto simp: view_defs prepend_unless_exists_distinct replace_by_id_ids
        remove_by_id_distinct split: sum.splits)

lemma run_ops_distinct:
  "list_all (\<lambda>step. answer_wf (snd step)) ops \<Longrightarrow> distinct (map t_id (tasks st)) \<Longrightarrow>
   distinct (map t_id (tasks (run_ops ops st)))"
  by (induction ops st rule: run_ops.induct) (auto simp: apply_op_distinct)

lemma list_all_take: "list_all P xs \<Longrightarrow> list_all P (take k xs)"
  by (auto simp: list_all_iff dest: in_set_takeD)

text \<open>
  C1. Starting from a list with pairwise distinct task ids, after every step of every
  history (settled fetch, pushed task-created, task-updated and task-deleted events,
  settled create, update and delete calls, each under whatever route parameter holds
  when it runs) the list has pairwise distinct task ids. The answers in the history are
  answers of the server: a fetched list has pairwise distinct ids, and the answer to an
  update carries the id that was asked for.
\<close>

theorem task_ids_stay_distinct:
  assumes "distinct (map t_id (tasks st))"
    and "list_all (\<lambda>step. answer_wf (snd step)) ops"
  shows "\<forall>k \<le> length ops. distinct (map t_id (tasks (run_ops (take k ops) st)))"
  using assms by (auto intro!: run_ops_distinct list_all_take)

theorem task_ids_stay_distinct_witness:
  "distinct (map t_id (tasks (sample_view []))) \<and>
   list_all (\<lambda>step. answer_wf (snd step)) sample_history \<and>
   (9::nat) \<le> length sample_history \<and>
   map t_id (tasks (run_ops (take 9 sample_history) (sample_view []))) = [''d'', ''c'', ''a''] \<and>
   distinct (map t_id (tasks (run_ops (take 9 sample_history) (sample_view [])))) \<and>
   (12::nat) \<le> length sample_history \<and>
   map t_id (tasks (run_ops (take 12 sample_history) (sample_view []))) = [''f'', ''e''] \<and>
   distinct (map t_id (tasks (run_ops (take 12 sample_history) (sample_view []))))"
  using task_ids_stay_distinct [of "sample_view []" sample_history]
  by (simp add: sample_history_def sample_view_defs view_defs)

text \<open>
  C2 (as amended). For a mutation of the project that is being viewed, the settled REST
  call and the pushed event write the same task list, and running both, in either
  order, writes the list that one of them alone writes.
\<close>

theorem rest_and_push_agree:
  assumes "Some (mutation_project m) = vid"
  shows "tasks (apply_op vid (push_path m) st) = tasks (apply_op vid (rest_path m) st) \<and>
         tasks (apply_op vid (push_path m) (apply_op vid (rest_path m) st)) =
           tasks (apply_op vid (rest_path m) st) \<and>
         tasks (apply_op vid (rest_path m) (apply_op vid (push_path m) st)) =
           tasks (apply_op vid (rest_path m) st)"
  using assms
  by (cases m)
     (simp_all add: view_defs replace_by_id_twice prepend_unless_exists_twice remove_by_id_twice)

theorem rest_and_push_agree_witness:
  "Some (mutation_project (Updated (sample_task ''a'' ''p1'' ''Plan again''))) = Some ''p1'' \<and>
   map t_title (tasks (apply_op (Some ''p1'') (push_path (Updated (sample_task ''a'' ''p1'' ''Plan again'')))
      (sample_view [sample_task ''a'' ''p1'' ''Plan'', sample_task ''b'' ''p1'' ''Build'']))) =
     [''Plan again'', ''Build''] \<and>
   tasks (apply_op (Some ''p1'') (push_path (Updated (sample_task ''a'' ''p1'' ''Plan again'')))
      (sample_view [sample_task ''a'' ''p1'' ''Plan'', sample_task ''b'' ''p1'' ''Build''])) =
   tasks (apply_op (Some ''p1'') (rest_path (Updated (sample_task ''a'' ''p1'' ''Plan again'')))
      (sample_view [sample_task ''a'' ''p1'' ''Plan'', sample_task ''b'' ''p1'' ''Build'']))"
  using rest_and_push_agree [of "Updated (sample_task ''a'' ''p1'' ''Plan again'')" "Some ''p1''"
      "sample_view [sample_task ''a'' ''p1'' ''Plan'', sample_task ''b'' ''p1'' ''Build'']"]
  by (simp add: sample_view_defs view_defs)

text \<open>
  The claim as it is written, for every mutation, fails: while project \<open>p2\<close> is viewed,
  the settled call that created a task of project \<open>p1\<close> prepends it, and the pushed
  event for the same task is dropped by the listener's comparison with the route
  parameter.
\<close>

theorem rest_and_push_differ_other_project:
  "map t_id (tasks (apply_op (Some ''p2'') (rest_path (Created (sample_task ''a'' ''p1'' ''Plan'')))
      (sample_view []))) = [''a''] \<and>
   tasks (apply_op (Some ''p2'') (push_path (Created (sample_task ''a'' ''p1'' ''Plan'')))
      (sample_view [])) = []"
  by (simp add: sample_view_defs view_defs)

text \<open>
  C4. A task-created event for the viewed project: when no entry has the id of the new
  task, the new list is the new task followed by the old list and is longer by one;
  when an entry has that id, the state is left as it is.
\<close>

theorem task_created_prepends_or_ignores:
  assumes "Some (p_id (t_project task)) = vid"
  shows "(t_id task \<notin> set (map t_id (tasks st)) \<longrightarrow>
            tasks (on_task_created vid task st) = task # tasks st \<and>
            length (tasks (on_task_created vid task st)) = Suc (length (tasks st))) \<and>
         (t_id task \<in> set (map t_id (tasks st)) \<longrightarrow> on_task_created vid task st = st)"
  using assms by (auto simp: on_task_created_def prepend_unless_exists_def list_ex_ids)

theorem task_created_prepends_or_ignores_witness:
  "Some (p_id (t_project (sample_task ''c'' ''p1'' ''Ship''))) = Some ''p1'' \<and>
   t_id (sample_task ''c'' ''p1'' ''Ship'') \<notin> set (map t_id (tasks (sample_view [sample_task ''a'' ''p1'' ''Plan'']))) \<and>
   tasks (on_task_created (Some ''p1'') (sample_task ''c'' ''p1'' ''Ship'') (sample_view [sample_task ''a'' ''p1'' ''Plan''])) =
     [sample_task ''c'' ''p1'' ''Ship'', sample_task ''a'' ''p1'' ''Plan''] \<and>
   t_id (sample_task ''a'' ''p1'' ''Plan anew'') \<in> set (map t_id (tasks (sample_view [sample_task ''a'' ''p1'' ''Plan'']))) \<and>
   on_task_created (Some ''p1'') (sample_task ''a'' ''p1'' ''Plan anew'') (sample_view [sample_task ''a'' ''p1'' ''Plan'']) =
     sample_view [sample_task ''a'' ''p1'' ''Plan'']"
  using task_created_prepends_or_ignores [of "sample_task ''c'' ''p1'' ''Ship''" "Some ''p1''"
          "sample_view [sample_task ''a'' ''p1'' ''Plan'']"]
        task_created_prepends_or_ignores [of "sample_task ''a'' ''p1'' ''Plan anew''" "Some ''p1''"
          "sample_view [sample_task ''a'' ''p1'' ''Plan'']"]
  by (simp add: sample_view_def sample_task_def)

text \<open>
  C5. Each of the three listeners for task events, run twice on the same event, leaves
  the state that one run leaves.
\<close>

theorem task_events_idempotent:
  "on_task_created vid task (on_task_created vid task st) = on_task_created vid task st \<and>
   on_task_updated vid task (on_task_updated vid task st) = on_task_updated vid task st \<and>
   on_task_deleted vid taskId projectId (on_task_deleted vid taskId projectId st) =
     on_task_deleted vid taskId projectId st"
  by (simp add: on_task_created_def on_task_updated_def on_task_deleted_def
        replace_by_id_twice prepend_unless_exists_twice remove_by_id_twice)

text \<open>
  C7. A create, update or delete call that is rejected leaves the whole state of the
  view, and so the task list, as it was.
\<close>

theorem failed_call_keeps_view:
  "handleCreateTask_settled vid (Inl err) st = st \<and>
   handleUpdateTask_settled taskId (Inl err) st = st \<and>
   handleDeleteTask_settled taskId confirmed (Inl err) st = st"
  by (simp add: handleCreateTask_settled_def handleUpdateTask_settled_def
        handleDeleteTask_settled_def)

text \<open>
  C8. A task event whose project is not the viewed one leaves the state of the view,
  and so the task list, as it was, whichever of the three kinds it is.
\<close>

theorem other_project_event_ignored:
  "(Some (p_id (t_project task)) \<noteq> vid \<longrightarrow>
      on_task_created vid task st = st \<and> on_task_updated vid task st = st) \<and>
   (Some projectId \<noteq> vid \<longrightarrow> on_task_deleted vid taskId projectId st = st)"
  by (simp add: on_task_created_def on_task_updated_def on_task_deleted_def)

theorem other_project_event_ignored_witness:
  "Some (p_id (t_project (sample_task ''a'' ''p2'' ''Changed''))) \<noteq> Some ''p1'' \<and>
   Some ''p2'' \<noteq> Some ''p1'' \<and>
   on_task_created (Some ''p1'') (sample_task ''a'' ''p2'' ''Changed'') (sample_view [sample_task ''a'' ''p1'' ''Plan'']) =
     sample_view [sample_task ''a'' ''p1'' ''Plan''] \<and>
   on_task_updated (Some ''p1'') (sample_task ''a'' ''p2'' ''Changed'') (sample_view [sample_task ''a'' ''p1'' ''Plan'']) =
     sample_view [sample_task ''a'' ''p1'' ''Plan''] \<and>
   on_task_deleted (Some ''p1'') ''a'' ''p2'' (sample_view [sample_task ''a'' ''p1'' ''Plan'']) =
     sample_view [sample_task ''a'' ''p1'' ''Plan'']"
  using other_project_event_ignored [of "sample_task ''a'' ''p2'' ''Changed''" "Some ''p1''"
          "sample_view [sample_task ''a'' ''p1'' ''Plan'']" "''p2''" "''a''"]
  by (simp add: sample_task_def)

section \<open>Dispatch on the client event bus\<close>

lemma in_all_kinds: "k \<in> set all_kinds"
  by (cases k) (simp_all add: all_kinds_def)

lemma set_map_filter: "set (List.map_filter f xs) = {a. \<exists>x \<in> set xs. f x = Some a}"
  by (induction xs) (auto split: option.splits)

lemma map_filter_distinct_inj:
  "distinct (List.map_filter f xs) \<Longrightarrow> x \<in> set xs \<Longrightarrow> y \<in> set xs \<Longrightarrow>
   f x = Some a \<Longrightarrow> f y = Some a \<Longrightarrow> x = y"
proof (induction xs)
  case Nil
  then show ?case by simp
next
  case (Cons z zs)
  then show ?case
    by (cases "f z") (auto simp: set_map_filter)
qed

lemma distinct_map_filter_inj:
  "distinct xs \<Longrightarrow> (\<forall>x y a. f x = Some a \<and> f y = Some a \<longrightarrow> x = y) \<Longrightarrow>
   distinct (List.map_filter f xs)"
proof (induction xs)
  case Nil
  then show ?case by simp
next
  case (Cons z zs)
  then show ?case
    by (cases "f z") (auto simp: set_map_filter)
qed

lemma service_wf_iff:
  "service_wf svc \<longleftrightarrow>
     (\<forall>k a. listeners svc k = Some a \<longrightarrow> a < allocated svc) \<and>
     (\<forall>k k' a. listeners svc k = Some a \<and> listeners svc k' = Some a \<longrightarrow> k = k')"
proof
  assume wf: "service_wf svc"
  have "\<And>k a. listeners svc k = Some a \<Longrightarrow> a < allocated svc"
    using wf in_all_kinds by (fastforce simp: service_wf_def list_all_iff split: option.splits)
  moreover have "\<And>k k' a. listeners svc k = Some a \<Longrightarrow> listeners svc k' = Some a \<Longrightarrow> k = k'"
    using wf map_filter_distinct_inj [of "listeners svc" all_kinds] in_all_kinds
    by (simp add: service_wf_def)
  ultimately show "(\<forall>k a. listeners svc k = Some a \<longrightarrow> a < allocated svc) \<and>
     (\<forall>k k' a. listeners svc k = Some a \<and> listeners svc k' = Some a \<longrightarrow> k = k')"
    by blast
next
  assume "(\<forall>k a. listeners svc k = Some a \<longrightarrow> a < allocated svc) \<and>
     (\<forall>k k' a. listeners svc k = Some a \<and> listeners svc k' = Some a \<longrightarrow> k = k')"
  moreover have "distinct all_kinds" by (simp add: all_kinds_def)
  ultimately show "service_wf svc"
    unfolding service_wf_def
    by (auto simp: list_all_iff split: option.splits intro!: distinct_map_filter_inj)
qed

text \<open>
  The invariant holds for the service as it is constructed, and \<^verbatim>\<open>on\<close>, \<^verbatim>\<open>off\<close> and
  \<^verbatim>\<open>disconnect\<close> keep it.
\<close>

lemma new_service_wf: "service_wf new_service"
  by (simp add: service_wf_iff new_service_def)

lemma perform_wf: "service_wf svc \<Longrightarrow> service_wf (perform c svc)"
proof (cases c)
  case (On k cb)
  assume "service_wf svc"
  then show ?thesis
    unfolding On service_wf_iff
    by (auto simp: on_def Let_def less_Suc_eq split: option.splits if_splits)
next
  case (Off k r)
  assume "service_wf svc"
  then show ?thesis
    unfolding Off service_wf_iff by (auto simp: off_def split: option.splits)
next
  case Disconnect
  then show ?thesis by (simp add: service_wf_iff disconnect_def)
qed

lemma built_service_wf: "service_wf svc \<Longrightarrow> service_wf (fold perform cmds svc)"
  by (induction cmds arbitrary: svc) (simp_all add: perform_wf)

lemma keeps_length:
  assumes "keeps a event orig svc"
  shows "length orig \<le> length (arrays svc a)"
proof -
  have "take (length orig) (arrays svc a) = orig"
    using assms by (simp add: keeps_def)
  then have "length (take (length orig) (arrays svc a)) = length orig"
    by simp
  then show ?thesis by simp
qed

lemma splice_first_absent: "r \<notin> set (map l_ref ls) \<Longrightarrow> splice_first r ls = ls"
  by (induction ls) auto

lemma off_absent:
  "r \<notin> set (map l_ref (registered svc event)) \<Longrightarrow> arrays (off event r svc) = arrays svc"
  by (cases "listeners svc event") (simp_all add: off_def registered_def splice_first_absent)

lemma off_keeps_map:
  "listeners (off event r svc) = listeners svc \<and> allocated (off event r svc) = allocated svc"
  by (cases "listeners svc event") (simp_all add: off_def)

lemma perform_keeps:
  assumes "keeps a event orig svc" and "\<not> unregisters event c svc"
  shows "keeps a event orig (perform c svc)"
proof (cases c)
  case (On k cb)
  have len: "length orig \<le> length (arrays svc a)" using assms(1) by (rule keeps_length)
  show ?thesis
    using assms(1) len unfolding On keeps_def
    by (auto simp: on_def Let_def less_Suc_eq split: option.splits)
next
  case (Off k r)
  show ?thesis
  proof (cases "k = event")
    case True
    then have "r \<notin> set (map l_ref (registered svc event))"
      using assms(2) Off by simp
    then have "arrays (off event r svc) = arrays svc" by (rule off_absent)
    then show ?thesis
      using assms(1) off_keeps_map [of event r svc] unfolding Off True keeps_def by simp
  next
    case False
    then show ?thesis
      using assms(1) unfolding Off keeps_def
      by (auto simp: off_def split: option.splits)
  qed
next
  case Disconnect
  then show ?thesis using assms(1) by (simp add: keeps_def disconnect_def)
qed

lemma fold_perform_keeps:
  "keeps a event orig svc \<Longrightarrow> no_removal event cmds svc \<Longrightarrow>
   keeps a event orig (fold perform cmds svc)"
  by (induction cmds arbitrary: svc) (auto simp: perform_keeps)

lemma thrown_line: "thrown event x = line_of event (r, data, exception x)"
  by (cases x rule: state_after.cases) simp_all

lemma guarded_call_step:
  "guarded_call event data l w =
     Returned (w\<lparr>app := state_after (l_run l data (app w)),
                 console := console w @ thrown event (l_run l data (app w)),
                 called := called w @ [(l_ref l, data, exception (l_run l data (app w)))],
                 service := fold perform (snd (l_run l data (app w))) (service w)\<rparr>)"
  by (cases "l_run l data (app w)" rule: state_after.cases)
     (simp_all add: guarded_call_def call_def)

text \<open>
  Whatever the listeners do, each visit returns, and what it adds to the console is
  the line of the call it has made, if that call threw.
\<close>

lemma visit_logs:
  "\<exists>w' news. visit event data a k w = Returned w' \<and> called w' = called w @ news \<and>
      console w' = console w @ concat (map (line_of event) news) \<and>
      list_all (\<lambda>c. fst (snd c) = data) news"
proof (cases "k < length (arrays (service w) a)")
  case True
  define l where "l = arrays (service w) a ! k"
  show ?thesis
    unfolding visit_def using True
    by (simp add: guarded_call_step l_def [symmetric]
          thrown_line [of event _ "l_ref l" data])
next
  case False
  then have "visit event data a k w = Returned w" by (simp add: visit_def)
  then show ?thesis by simp
qed

lemma forEach_visit_logs:
  "\<exists>w' news. forEach (visit event data a) ks w = Returned w' \<and> called w' = called w @ news \<and>
      console w' = console w @ concat (map (line_of event) news) \<and>
      list_all (\<lambda>c. fst (snd c) = data) news"
proof (induction ks arbitrary: w)
  case Nil
  show ?case by simp
next
  case (Cons k ks)
  obtain w1 n1 where 1: "visit event data a k w = Returned w1" "called w1 = called w @ n1"
      "console w1 = console w @ concat (map (line_of event) n1)"
      "list_all (\<lambda>c. fst (snd c) = data) n1"
    using visit_logs [of event data a k w] by blast
  obtain w2 n2 where 2: "forEach (visit event data a) ks w1 = Returned w2"
      "called w2 = called w1 @ n2"
      "console w2 = console w1 @ concat (map (line_of event) n2)"
      "list_all (\<lambda>c. fst (snd c) = data) n2"
    using Cons.IH [of w1] by blast
  have "forEach (visit event data a) (k # ks) w = Returned w2"
    using 1(1) 2(1) by simp
  moreover have "called w2 = called w @ (n1 @ n2)" using 1(2) 2(2) by simp
  moreover have "console w2 = console w @ concat (map (line_of event) (n1 @ n2))"
    using 1(3) 2(3) by simp
  moreover have "list_all (\<lambda>c. fst (snd c) = data) (n1 @ n2)" using 1(4) 2(4) by simp
  ultimately show ?case by blast
qed

lemma emit_logs:
  "\<exists>w' news. emit event data w = Returned w' \<and> called w' = called w @ news \<and>
      console w' = console w @ concat (map (line_of event) news) \<and>
      list_all (\<lambda>c. fst (snd c) = data) news"
proof (cases "listeners (service w) event")
  case None
  then have "emit event data w = Returned w" by (simp add: emit_def)
  then show ?thesis by simp
next
  case (Some a)
  have "emit event data w =
      forEach (visit event data a) [0..<length (arrays (service w) a)] w"
    by (simp add: emit_def Some)
  then show ?thesis
    using forEach_visit_logs [of event data a "[0..<length (arrays (service w) a)]" w]
    by simp
qed

lemma loop_from:
  "i \<le> length orig \<Longrightarrow> m = length orig - i \<Longrightarrow> keeps a event orig (service w) \<Longrightarrow>
   undisturbed event data (drop i orig) (app w) (service w) \<Longrightarrow>
    \<exists>w'. forEach (visit event data a) [i..<length orig] w = Returned w' \<and>
          called w' = called w @ calls data (drop i orig) (app w) \<and>
          app w' = foldl (\<lambda>s l. state_after (l_run l data s)) (app w) (drop i orig) \<and>
          console w' = console w @ logged event data (drop i orig) (app w)"
proof (induction m arbitrary: i w)
  case 0
  then show ?case by simp
next
  case (Suc m)
  then have lt: "i < length orig" by simp
  define l where "l = orig ! i"
  have len: "length orig \<le> length (arrays (service w) a)"
    using Suc.prems(3) by (rule keeps_length)
  have "take (length orig) (arrays (service w) a) = orig"
    using Suc.prems(3) by (simp add: keeps_def)
  then have at: "arrays (service w) a ! i = l"
    unfolding l_def using lt by (metis nth_take)
  define w1 where "w1 = w\<lparr>app := state_after (l_run l data (app w)),
                 console := console w @ thrown event (l_run l data (app w)),
                 called := called w @ [(l_ref l, data, exception (l_run l data (app w)))],
                 service := fold perform (snd (l_run l data (app w))) (service w)\<rparr>"
  have step: "visit event data a i w = Returned w1"
    using lt len at by (simp add: visit_def guarded_call_step w1_def)
  have dr: "drop i orig = l # drop (Suc i) orig"
    unfolding l_def using lt by (simp add: Cons_nth_drop_Suc)
  have calm: "no_removal event (snd (l_run l data (app w))) (service w)"
    and rest: "undisturbed event data (drop (Suc i) orig) (app w1) (service w1)"
    using Suc.prems(4) unfolding dr by (simp_all add: w1_def)
  have k1: "keeps a event orig (service w1)"
    using Suc.prems(3) calm by (simp add: w1_def fold_perform_keeps)
  have idx: "[i..<length orig] = i # [Suc i..<length orig]"
    using lt by (simp add: upt_conv_Cons)
  obtain w' where w': "forEach (visit event data a) [Suc i..<length orig] w1 = Returned w'"
      "called w' = called w1 @ calls data (drop (Suc i) orig) (app w1)"
      "app w' = foldl (\<lambda>s l. state_after (l_run l data s)) (app w1) (drop (Suc i) orig)"
      "console w' = console w1 @ logged event data (drop (Suc i) orig) (app w1)"
  proof -
    have le: "Suc i \<le> length orig" using lt by simp
    have m: "m = length orig - Suc i" using Suc.prems(2) by linarith
    from Suc.IH [OF le m k1 rest] show ?thesis using that by blast
  qed
  have "forEach (visit event data a) [i..<length orig] w = Returned w'"
    unfolding idx using step w'(1) by simp
  then show ?case
    using w'(2-4) by (simp add: dr w1_def)
qed

lemma emit_undisturbed:
  assumes "service_wf (service w)"
    and "undisturbed event data (registered (service w) event) (app w) (service w)"
  shows "\<exists>w'. emit event data w = Returned w' \<and>
          called w' = called w @ calls data (registered (service w) event) (app w) \<and>
          app w' = foldl (\<lambda>s l. state_after (l_run l data s)) (app w) (registered (service w) event) \<and>
          console w' = console w @ logged event data (registered (service w) event) (app w)"
proof (cases "listeners (service w) event")
  case None
  then show ?thesis by (simp add: emit_def registered_def)
next
  case (Some a)
  define orig where "orig = arrays (service w) a"
  have reg: "registered (service w) event = orig"
    by (simp add: registered_def Some orig_def)
  have "keeps a event orig (service w)"
    unfolding keeps_def orig_def
    using assms(1) Some unfolding service_wf_iff by auto
  then show ?thesis
    using loop_from [of 0 orig "length orig" a event w data] assms(2)
    by (simp add: emit_def Some reg orig_def [symmetric])
qed

lemma calls_refs: "map fst (calls data ls a) = map l_ref ls"
  by (induction ls arbitrary: a) simp_all

lemmas service_defs = new_service_def on_def off_def disconnect_def registered_def Let_def

lemmas emit_defs = emit_def visit_def guarded_call_def call_def error_line_def

text \<open>
  C6 (as amended). A dispatch of an event of any kind returns normally, whatever the
  listeners do: every exception that a call throws is caught and written to the
  console, one line for each call that threw and nothing else, and every call that is
  made is given the data of the event. When the registry satisfies its invariant (as
  every registry does that \<^verbatim>\<open>on\<close>, \<^verbatim>\<open>off\<close> and \<^verbatim>\<open>disconnect\<close> have built from a new
  service) and no call of \<^verbatim>\<open>off\<close> made by a listener while this event is dispatched
  unregisters a listener of the kind, the dispatch calls every listener registered for
  the kind, in the order of registration, each on the application state its
  predecessor left, whether that one returned or threw.
\<close>

theorem emit_calls_every_listener:
  "(\<exists>w' news. emit event data w = Returned w' \<and> called w' = called w @ news \<and>
      console w' = console w @ concat (map (line_of event) news) \<and>
      list_all (\<lambda>c. fst (snd c) = data) news) \<and>
   (service_wf (service w) \<and>
    undisturbed event data (registered (service w) event) (app w) (service w) \<longrightarrow>
      called (after (emit event data w)) =
        called w @ calls data (registered (service w) event) (app w) \<and>
      map fst (calls data (registered (service w) event) (app w)) =
        map l_ref (registered (service w) event) \<and>
      app (after (emit event data w)) =
        foldl (\<lambda>s l. state_after (l_run l data s)) (app w) (registered (service w) event) \<and>
      console (after (emit event data w)) =
        console w @ logged event data (registered (service w) event) (app w))"
proof (intro conjI impI)
  show "\<exists>w' news. emit event data w = Returned w' \<and> called w' = called w @ news \<and>
      console w' = console w @ concat (map (line_of event) news) \<and>
      list_all (\<lambda>c. fst (snd c) = data) news"
    by (rule emit_logs)
next
  assume h: "service_wf (service w) \<and>
    undisturbed event data (registered (service w) event) (app w) (service w)"
  then obtain w' where "emit event data w = Returned w'"
    and "called w' = called w @ calls data (registered (service w) event) (app w)"
    and "app w' = foldl (\<lambda>s l. state_after (l_run l data s)) (app w) (registered (service w) event)"
    and "console w' = console w @ logged event data (registered (service w) event) (app w)"
    using emit_undisturbed [of w event data] by blast
  then show "called (after (emit event data w)) =
        called w @ calls data (registered (service w) event) (app w)"
    and "app (after (emit event data w)) =
        foldl (\<lambda>s l. state_after (l_run l data s)) (app w) (registered (service w) event)"
    and "console (after (emit event data w)) =
        console w @ logged event data (registered (service w) event) (app w)"
    by simp_all
  show "map fst (calls data (registered (service w) event) (app w)) =
        map l_ref (registered (service w) event)"
    by (rule calls_refs)
qed

theorem emit_calls_every_listener_witness:
  "service_wf (service (sample_world sample_service)) \<and>
   undisturbed Task_updated sample_data
     (registered (service (sample_world sample_service)) Task_updated)
     (app (sample_world sample_service)) (service (sample_world sample_service)) \<and>
   map l_ref (registered (service (sample_world sample_service)) Task_updated) = [1, 2] \<and>
   called (after (emit Task_updated sample_data (sample_world sample_service))) =
     [(1, sample_data, Some ''boom''), (2, sample_data, None)] \<and>
   app (after (emit Task_updated sample_data (sample_world sample_service))) = 11 \<and>
   console (after (emit Task_updated sample_data (sample_world sample_service))) =
     [''Error in socket event listener for task-updated: boom''] \<and>
   service_wf (service (sample_world patient_service)) \<and>
   undisturbed Task_updated sample_data
     (registered (service (sample_world patient_service)) Task_updated)
     (app (sample_world patient_service)) (service (sample_world patient_service)) \<and>
   map l_ref (registered (service (sample_world patient_service)) Task_updated) = [5, 6, 2] \<and>
   called (after (emit Task_updated sample_data (sample_world patient_service))) =
     [(5, sample_data, None), (6, sample_data, None), (2, sample_data, None)]"
proof -
  have sw: "\<And>svc. service (sample_world svc) = svc" "\<And>svc. app (sample_world svc) = 0"
      "\<And>svc. console (sample_world svc) = []" "\<And>svc. called (sample_world svc) = []"
    by (simp_all add: sample_world_def)
  have reg: "registered sample_service Task_updated = [thrower, counter]"
    by (simp add: sample_service_def service_defs)
  have wf: "service_wf sample_service"
    by (simp add: sample_service_def service_defs service_wf_def all_kinds_def)
  have u: "undisturbed Task_updated sample_data (registered sample_service Task_updated) 0
             sample_service"
    by (simp add: reg thrower_def counter_def)
  have reg2: "registered patient_service Task_updated = [stranger, patient, counter]"
    by (simp add: patient_service_def service_defs)
  have wf2: "service_wf patient_service"
    by (simp add: patient_service_def service_defs service_wf_def all_kinds_def)
  have u2: "undisturbed Task_updated sample_data (registered patient_service Task_updated) 0
             patient_service"
    unfolding reg2
    by (simp add: stranger_def patient_def counter_def patient_service_def service_defs)
  have first: "called (after (emit Task_updated sample_data (sample_world sample_service))) =
       [(1, sample_data, Some ''boom''), (2, sample_data, None)] \<and>
     app (after (emit Task_updated sample_data (sample_world sample_service))) = 11 \<and>
     console (after (emit Task_updated sample_data (sample_world sample_service))) =
       [''Error in socket event listener for task-updated: boom'']"
    using wf u emit_calls_every_listener [of Task_updated sample_data "sample_world sample_service"]
    by (simp add: sw reg thrower_def counter_def error_line_def)
  have second: "called (after (emit Task_updated sample_data (sample_world patient_service))) =
       [(5, sample_data, None), (6, sample_data, None), (2, sample_data, None)]"
    using wf2 u2 emit_calls_every_listener [of Task_updated sample_data "sample_world patient_service"]
    by (simp add: sw reg2 stranger_def patient_def counter_def)
  show ?thesis
    using wf u wf2 u2 first second
    by (simp add: sw reg reg2 thrower_def counter_def stranger_def patient_def)
qed

text \<open>
  The claim as it is written, for every list of listeners, fails: the loop runs over
  the array that \<^verbatim>\<open>off\<close> splices. When the first of two listeners unregisters itself
  during its call, the second moves to the index the loop has just left and is never
  called, although it was registered when the event arrived and still is afterwards.
\<close>

theorem listener_skipped_after_off:
  "service_wf leaving_service \<and>
   map l_ref (registered leaving_service Task_updated) = [3, 2] \<and>
   called (after (emit Task_updated sample_data (sample_world leaving_service))) =
     [(3, sample_data, None)] \<and>
   map l_ref (registered (service (after (emit Task_updated sample_data (sample_world leaving_service))))
     Task_updated) = [2]"
  by (simp add: sample_world_def leaving_service_def service_defs service_wf_def all_kinds_def
        emit_defs leaver_def counter_def)

text \<open>
  A listener that disconnects the service during a dispatch empties the registry, but
  the dispatch that is under way still runs over the array it began with: the listener
  registered after it is called once more.
\<close>

lemma disconnect_during_dispatch:
  "called (after (emit Task_updated sample_data (sample_world closing_service))) =
     [(4, sample_data, None), (2, sample_data, None)] \<and>
   registered (service (after (emit Task_updated sample_data (sample_world closing_service))))
     Task_updated = []"
  by (simp add: sample_world_def closing_service_def service_defs emit_defs closer_def counter_def)

text \<open>
  C10. After \<^verbatim>\<open>disconnect\<close> the service holds no socket and no listener of any kind; a
  dispatch then calls nothing and leaves the world as it is; and a listener registered
  afterwards with \<^verbatim>\<open>on\<close> is the only one of its kind.
\<close>

theorem disconnect_clears_registry:
  "socket (disconnect svc) = None \<and> registered (disconnect svc) event = [] \<and>
   emit event data (w\<lparr>service := disconnect (service w)\<rparr>) =
     Returned (w\<lparr>service := disconnect (service w)\<rparr>) \<and>
   registered (on event callback (disconnect svc)) event = [callback]"
  by (simp add: disconnect_def registered_def emit_def on_def)

section \<open>The order of commit and publication in the routes\<close>

lemmas step_defs = route_def and_then_def await_def respond_def io_emit_def commit_def
  effects_of_def server_error_def Let_def

lemmas db_defs = Project_findOne_access_def Project_findOne_owner_def Task_findById_def
  User_findOne_email_def insert_task_def save_task_def insert_project_def save_project_def
  Task_findByIdAndDelete_def Task_deleteMany_project_def Project_findByIdAndDelete_def
  populate_project_def populate_assignee_def populate_createdBy_def populate_owner_def
  populate_members_def

lemmas sample_server_defs = sample_server_def sample_project_def sample_request_def
  idle_request_def sample_user_def never_def only_def room_of_def

lemma find_Some_holds: "find P xs = Some x \<Longrightarrow> P x"
  by (induction xs) (auto split: if_splits)

lemma find_Some_set: "find P xs = Some x \<Longrightarrow> x \<in> set xs"
  by (induction xs) (auto split: if_splits)

lemma assign_task_id: "td_id (assign_task b d) = td_id d"
  by (simp add: assign_task_def Let_def split: option.splits)

lemma assign_project_id: "pd_id (assign_project b d) = pd_id d"
  by (simp add: assign_project_def Let_def)

lemma members_grow: "d\<lparr>pd_members := pd_members d @ [x]\<rparr> \<noteq> d"
proof
  assume "d\<lparr>pd_members := pd_members d @ [x]\<rparr> = d"
  then have "pd_members (d\<lparr>pd_members := pd_members d @ [x]\<rparr>) = pd_members d"
    by simp
  then show False by simp
qed

text \<open>The task that answers an update is the one that was asked for.\<close>

lemma put_task_answers_requested_id:
  "fst (put_task fails rq s) = (200, Task_body t) \<Longrightarrow> td_id (to_doc t) = rq_id rq"
  unfolding put_task_def step_defs db_defs
  by (auto simp: assign_task_id split: option.splits if_splits path.splits dest: find_Some_holds)

lemma post_task_order:
  "publishes_after_commit False (effects_of (post_task fails rq) s)"
  unfolding post_task_def step_defs db_defs
  by (auto simp: task_assembled_def split: option.splits)

lemma post_project_order:
  "publishes_after_commit False (effects_of (post_project fails rq) s)"
  unfolding post_project_def step_defs db_defs
  by (auto simp: project_assembled_def split: option.splits)

lemma post_member_order:
  "publishes_after_commit False (effects_of (post_member fails rq) s)"
  unfolding post_member_def step_defs db_defs
  by (auto simp: project_assembled_def loaded_def members_grow split: option.splits)

lemma put_task_order:
  "publishes_after_save s False (effects_of (put_task fails rq) s)"
  unfolding put_task_def step_defs db_defs
  by (auto simp: task_assembled_def split: option.splits path.splits dest: find_Some_set)

lemma put_project_order:
  "publishes_after_save s False (effects_of (put_project fails rq) s)"
  unfolding put_project_def step_defs db_defs
  by (auto simp: project_assembled_def loaded_def split: option.splits dest: find_Some_set)

lemma delete_member_order:
  "publishes_after_save s False (effects_of (delete_member fails rq) s)"
  unfolding delete_member_def step_defs db_defs
  by (auto simp: project_assembled_def loaded_def split: option.splits dest: find_Some_set)

lemma delete_task_order:
  "publishes_before_delete [] (effects_of (delete_task fails rq) s)"
  unfolding delete_task_def step_defs db_defs
  by (auto split: option.splits)

lemma delete_project_order:
  "publishes_before_delete [] (effects_of (delete_project fails rq) s)"
  unfolding delete_project_def step_defs db_defs
  by (auto split: option.splits)


lemma new_Task_id: "td_id (to_doc (new_Task rq)) = rq_new_id rq"
  by (simp add: new_Task_def Let_def)

lemma pre_save_new_id: "pd_id (pre_save_new d) = pd_id d"
  by (simp add: pre_save_new_def)

lemma new_Project_id: "pd_id (po_doc (new_Project rq)) = rq_new_id rq"
  by (simp add: new_Project_def Let_def)

lemma po_doc_loaded: "po_doc (loaded d) = d"
  by (simp add: loaded_def)

lemma find_id: "find P xs = Some x \<Longrightarrow> P x \<and> x \<in> set xs"
  by (simp add: find_Some_holds find_Some_set)

lemma post_task_done:
  "fst (fst (post_task fails rq s)) = 201 \<longrightarrow>
   (\<exists>t. snd (fst (post_task fails rq s)) = Task_body t \<and>
       effects_of (post_task fails rq) s =
         [Committed (Save_task (rq_new_id rq)),
          Emitted (room_of (b_project (rq_body rq))) Task_created (Task_payload t)])"
  unfolding post_task_def step_defs db_defs
  by (simp add: new_Task_id split: option.split)

lemma post_project_done:
  "fst (fst (post_project fails rq s)) = 201 \<longrightarrow>
   (\<exists>p. snd (fst (post_project fails rq s)) = Project_body p \<and>
       effects_of (post_project fails rq) s =
         [Committed (Save_project (rq_new_id rq)),
          Emitted (room_of (rq_new_id rq)) Project_created (Project_payload p)])"
  unfolding post_project_def step_defs db_defs
  by (simp add: new_Project_id pre_save_new_id split: option.split)

lemma found_task_id: "find (\<lambda>x. td_id x = k) ts = Some d \<Longrightarrow> td_id d = k"
  by (auto dest: find_Some_holds)

lemma put_task_shape:
  "fst (fst (put_task fails rq s)) = 200 \<longrightarrow>
   (case snd (fst (put_task fails rq s)) of
      Task_body t \<Rightarrow>
        \<exists>room. effects_of (put_task fails rq) s =
          saved_then_published
            (find (\<lambda>x. td_id x = rq_id rq) (task_docs s) = Some (to_doc t))
            (Save_task (rq_id rq))
            (Emitted room Task_updated (Task_payload t))
    | other \<Rightarrow> False)"
proof (cases "find (\<lambda>x. td_id x = rq_id rq) (task_docs s)")
  case None
  then show ?thesis
    unfolding put_task_def step_defs db_defs by simp
next
  case (Some d)
  then have id: "td_id d = rq_id rq" by (rule found_task_id)
  have same: "(d = assign_task (rq_body rq) d) = (assign_task (rq_body rq) d = d)"
    by auto
  show ?thesis
    unfolding put_task_def step_defs db_defs saved_then_published_def
    by (simp add: Some id same assign_task_id split: option.split)
qed

lemma put_task_done:
  "fst (fst (put_task fails rq s)) = 200 \<Longrightarrow>
   \<exists>t room. snd (fst (put_task fails rq s)) = Task_body t \<and>
       effects_of (put_task fails rq) s =
         saved_then_published
           (find (\<lambda>x. td_id x = rq_id rq) (task_docs s) = Some (to_doc t))
           (Save_task (rq_id rq))
           (Emitted room Task_updated (Task_payload t))"
  using put_task_shape [of fails rq s]
  by (cases "snd (fst (put_task fails rq s))") auto

lemma found_project_id:
  "find (\<lambda>x. pd_id x = k \<and> pd_owner x = u) ps = Some d \<Longrightarrow> pd_id d = k"
  by (auto dest: find_Some_holds)

lemma put_project_shape:
  "fst (fst (put_project fails rq s)) = 200 \<longrightarrow>
   (case snd (fst (put_project fails rq s)) of
      Project_body p \<Rightarrow>
        effects_of (put_project fails rq) s =
          saved_then_published
            (find (\<lambda>x. pd_id x = rq_id rq \<and> pd_owner x = rq_user rq) (projects s) = Some (po_doc p))
            (Save_project (rq_id rq))
            (Emitted (room_of (rq_id rq)) Project_updated (Project_payload p))
    | other \<Rightarrow> False)"
proof (cases "find (\<lambda>x. pd_id x = rq_id rq \<and> pd_owner x = rq_user rq) (projects s)")
  case None
  then show ?thesis
    unfolding put_project_def step_defs db_defs by simp
next
  case (Some d)
  then have id: "pd_id d = rq_id rq" by (rule found_project_id)
  have same: "(d = assign_project (rq_body rq) d) = (assign_project (rq_body rq) d = d)"
    by auto
  show ?thesis
    unfolding put_project_def step_defs db_defs saved_then_published_def
    by (simp add: Some id same assign_project_id po_doc_loaded)
qed

lemma put_project_done:
  "fst (fst (put_project fails rq s)) = 200 \<Longrightarrow>
   \<exists>p. snd (fst (put_project fails rq s)) = Project_body p \<and>
       effects_of (put_project fails rq) s =
         saved_then_published
           (find (\<lambda>x. pd_id x = rq_id rq \<and> pd_owner x = rq_user rq) (projects s) = Some (po_doc p))
           (Save_project (rq_id rq))
           (Emitted (room_of (rq_id rq)) Project_updated (Project_payload p))"
  using put_project_shape [of fails rq s]
  by (cases "snd (fst (put_project fails rq s))") auto

lemma delete_member_shape:
  "fst (fst (delete_member fails rq s)) = 200 \<longrightarrow>
   (case snd (fst (delete_member fails rq s)) of
      Project_body p \<Rightarrow>
        effects_of (delete_member fails rq) s =
          saved_then_published
            (find (\<lambda>x. pd_id x = rq_id rq \<and> pd_owner x = rq_user rq) (projects s) = Some (po_doc p))
            (Save_project (rq_id rq))
            (Emitted (room_of (rq_id rq)) Project_member_removed
               (Member_removed_payload p (rq_memberId rq)))
    | other \<Rightarrow> False)"
proof (cases "find (\<lambda>x. pd_id x = rq_id rq \<and> pd_owner x = rq_user rq) (projects s)")
  case None
  then show ?thesis
    unfolding delete_member_def step_defs db_defs by simp
next
  case (Some d)
  then have id: "pd_id d = rq_id rq" by (rule found_project_id)
  define d' where "d' = d\<lparr>pd_members := filter (\<lambda>memberId. memberId \<noteq> rq_memberId rq) (pd_members d)\<rparr>"
  have id': "pd_id d' = rq_id rq" by (simp add: d'_def id)
  have same: "(d = d') = (d' = d)" by auto
  show ?thesis
    unfolding delete_member_def step_defs db_defs saved_then_published_def
    by (simp add: Some id id' same po_doc_loaded d'_def [symmetric])
qed

lemma delete_member_done:
  "fst (fst (delete_member fails rq s)) = 200 \<Longrightarrow>
   \<exists>p. snd (fst (delete_member fails rq s)) = Project_body p \<and>
       effects_of (delete_member fails rq) s =
         saved_then_published
           (find (\<lambda>x. pd_id x = rq_id rq \<and> pd_owner x = rq_user rq) (projects s) = Some (po_doc p))
           (Save_project (rq_id rq))
           (Emitted (room_of (rq_id rq)) Project_member_removed
              (Member_removed_payload p (rq_memberId rq)))"
  using delete_member_shape [of fails rq s]
  by (cases "snd (fst (delete_member fails rq s))") auto

lemma post_member_shape:
  "fst (fst (post_member fails rq s)) = 200 \<longrightarrow>
   (case snd (fst (post_member fails rq s)) of
      Project_body p \<Rightarrow>
        \<exists>usr. effects_of (post_member fails rq) s =
          [Committed (Save_project (rq_id rq)),
           Emitted (room_of (rq_id rq)) Project_member_added (Member_added_payload p usr)]
    | other \<Rightarrow> False)"
proof (cases "find (\<lambda>x. pd_id x = rq_id rq \<and> pd_owner x = rq_user rq) (projects s)")
  case None
  then show ?thesis
    unfolding post_member_def step_defs db_defs by simp
next
  case (Some d)
  then have id: "pd_id d = rq_id rq" by (rule found_project_id)
  show ?thesis
    unfolding post_member_def step_defs db_defs
    by (simp add: Some id po_doc_loaded members_grow split: option.split)
qed

lemma post_member_done:
  "fst (fst (post_member fails rq s)) = 200 \<Longrightarrow>
   \<exists>p usr. snd (fst (post_member fails rq s)) = Project_body p \<and>
       effects_of (post_member fails rq) s =
         [Committed (Save_project (rq_id rq)),
          Emitted (room_of (rq_id rq)) Project_member_added (Member_added_payload p usr)]"
  using post_member_shape [of fails rq s]
  by (cases "snd (fst (post_member fails rq s))") auto

lemma delete_task_done:
  "fst (fst (delete_task fails rq s)) = 200 \<Longrightarrow>
   \<exists>projectId. effects_of (delete_task fails rq) s =
      [Emitted (room_of projectId) Task_deleted (Task_deleted_payload (rq_id rq) projectId),
       Committed (Delete_task (rq_id rq))]"
  unfolding delete_task_def step_defs db_defs
  by (auto split: option.splits if_splits dest: find_Some_holds)

lemma delete_project_done:
  "fst (fst (delete_project fails rq s)) = 200 \<Longrightarrow>
   effects_of (delete_project fails rq) s =
      [Committed (Delete_tasks_of (rq_id rq)),
       Emitted (room_of (rq_id rq)) Project_deleted (Project_deleted_payload (rq_id rq)),
       Committed (Delete_project (rq_id rq))]"
  unfolding delete_project_def step_defs db_defs
  by (auto split: option.splits if_splits dest: find_Some_holds)

text \<open>
  C3 (as amended). In the routes that create (POST of tasks and of projects, adding a
  member) an event is published only after the save has been committed, with every
  reference path of the entity populated, and no write follows it. In the routes that
  update (PUT of tasks and of projects, removing a member) the save writes only when
  the request changed the document: the event is then published after that write has
  been committed, and when nothing changed it is published with no write before it,
  carrying the document the collection already holds; in both cases the entity is
  populated and no write follows. The two routes that delete publish before the
  deletion they announce is committed: DELETE of a task publishes \<^verbatim>\<open>task-deleted\<close>
  before any write, DELETE of a project publishes \<^verbatim>\<open>project-deleted\<close> after the tasks
  of the project are deleted and before the project is. A request that succeeds leaves
  exactly the writes and the event listed for its route, in that order.
\<close>

theorem publish_order:
  "publishes_after_commit False (effects_of (post_task fails rq) s) \<and>
   publishes_after_commit False (effects_of (post_project fails rq) s) \<and>
   publishes_after_commit False (effects_of (post_member fails rq) s) \<and>
   publishes_after_save s False (effects_of (put_task fails rq) s) \<and>
   publishes_after_save s False (effects_of (put_project fails rq) s) \<and>
   publishes_after_save s False (effects_of (delete_member fails rq) s) \<and>
   publishes_before_delete [] (effects_of (delete_task fails rq) s) \<and>
   publishes_before_delete [] (effects_of (delete_project fails rq) s) \<and>
   (fst (fst (post_task fails rq s)) = 201 \<longrightarrow>
      (\<exists>t. snd (fst (post_task fails rq s)) = Task_body t \<and>
         effects_of (post_task fails rq) s =
           [Committed (Save_task (rq_new_id rq)),
            Emitted (room_of (b_project (rq_body rq))) Task_created (Task_payload t)])) \<and>
   (fst (fst (post_project fails rq s)) = 201 \<longrightarrow>
      (\<exists>p. snd (fst (post_project fails rq s)) = Project_body p \<and>
         effects_of (post_project fails rq) s =
           [Committed (Save_project (rq_new_id rq)),
            Emitted (room_of (rq_new_id rq)) Project_created (Project_payload p)])) \<and>
   (fst (fst (post_member fails rq s)) = 200 \<longrightarrow>
      (\<exists>p usr. snd (fst (post_member fails rq s)) = Project_body p \<and>
         effects_of (post_member fails rq) s =
           [Committed (Save_project (rq_id rq)),
            Emitted (room_of (rq_id rq)) Project_member_added (Member_added_payload p usr)])) \<and>
   (fst (fst (put_task fails rq s)) = 200 \<longrightarrow>
      (\<exists>t room. snd (fst (put_task fails rq s)) = Task_body t \<and>
         effects_of (put_task fails rq) s =
           saved_then_published
             (find (\<lambda>x. td_id x = rq_id rq) (task_docs s) = Some (to_doc t))
             (Save_task (rq_id rq))
             (Emitted room Task_updated (Task_payload t)))) \<and>
   (fst (fst (put_project fails rq s)) = 200 \<longrightarrow>
      (\<exists>p. snd (fst (put_project fails rq s)) = Project_body p \<and>
         effects_of (put_project fails rq) s =
           saved_then_published
             (find (\<lambda>x. pd_id x = rq_id rq \<and> pd_owner x = rq_user rq) (projects s) = Some (po_doc p))
             (Save_project (rq_id rq))
             (Emitted (room_of (rq_id rq)) Project_updated (Project_payload p)))) \<and>
   (fst (fst (delete_member fails rq s)) = 200 \<longrightarrow>
      (\<exists>p. snd (fst (delete_member fails rq s)) = Project_body p \<and>
         effects_of (delete_member fails rq) s =
           saved_then_published
             (find (\<lambda>x. pd_id x = rq_id rq \<and> pd_owner x = rq_user rq) (projects s) = Some (po_doc p))
             (Save_project (rq_id rq))
             (Emitted (room_of (rq_id rq)) Project_member_removed
                (Member_removed_payload p (rq_memberId rq))))) \<and>
   (fst (fst (delete_task fails rq s)) = 200 \<longrightarrow>
      (\<exists>projectId. effects_of (delete_task fails rq) s =
         [Emitted (room_of projectId) Task_deleted (Task_deleted_payload (rq_id rq) projectId),
          Committed (Delete_task (rq_id rq))])) \<and>
   (fst (fst (delete_project fails rq s)) = 200 \<longrightarrow>
      effects_of (delete_project fails rq) s =
        [Committed (Delete_tasks_of (rq_id rq)),
         Emitted (room_of (rq_id rq)) Project_deleted (Project_deleted_payload (rq_id rq)),
         Committed (Delete_project (rq_id rq))])"
proof (intro conjI impI)
  show "publishes_after_commit False (effects_of (post_task fails rq) s)"
    by (rule post_task_order)
  show "publishes_after_commit False (effects_of (post_project fails rq) s)"
    by (rule post_project_order)
  show "publishes_after_commit False (effects_of (post_member fails rq) s)"
    by (rule post_member_order)
  show "publishes_after_save s False (effects_of (put_task fails rq) s)"
    by (rule put_task_order)
  show "publishes_after_save s False (effects_of (put_project fails rq) s)"
    by (rule put_project_order)
  show "publishes_after_save s False (effects_of (delete_member fails rq) s)"
    by (rule delete_member_order)
  show "publishes_before_delete [] (effects_of (delete_task fails rq) s)"
    by (rule delete_task_order)
  show "publishes_before_delete [] (effects_of (delete_project fails rq) s)"
    by (rule delete_project_order)
qed (simp_all only: post_task_done post_project_done post_member_done put_task_done
       put_project_done delete_member_done delete_task_done delete_project_done)

lemmas route_defs = post_task_def put_task_def delete_task_def post_project_def
  put_project_def delete_project_def post_member_def delete_member_def

lemmas sample_eval = route_defs step_defs db_defs sample_server_defs not_member_def
  new_Task_def new_Project_def pre_save_new_def assign_task_def assign_project_def
  loaded_def truthy_def or_else_def find_user_def ref_of_def

theorem publish_order_witness:
  "fst (fst (post_task never (sample_request []) sample_server)) = 201 \<and>
   map is_commit (effects_of (post_task never (sample_request [])) sample_server) = [True, False] \<and>
   fst (fst (post_project never (sample_request []) sample_server)) = 201 \<and>
   map is_commit (effects_of (post_project never (sample_request [])) sample_server) = [True, False] \<and>
   fst (fst (post_member never (sample_request ''p1'') sample_server)) = 200 \<and>
   map is_commit (effects_of (post_member never (sample_request ''p1'')) sample_server) = [True, False] \<and>
   fst (fst (put_task never (sample_request ''t1'') sample_server)) = 200 \<and>
   map is_commit (effects_of (put_task never (sample_request ''t1'')) sample_server) = [True, False] \<and>
   fst (fst (put_task never (idle_request ''t1'') sample_server)) = 200 \<and>
   map is_commit (effects_of (put_task never (idle_request ''t1'')) sample_server) = [False] \<and>
   publishes_after_save sample_server False
     (effects_of (put_task never (idle_request ''t1'')) sample_server) \<and>
   fst (fst (put_project never (sample_request ''p1'') sample_server)) = 200 \<and>
   map is_commit (effects_of (put_project never (sample_request ''p1'')) sample_server) = [True, False] \<and>
   fst (fst (delete_member never (idle_request ''p1'') sample_server)) = 200 \<and>
   map is_commit (effects_of (delete_member never (idle_request ''p1'')) sample_server) = [False] \<and>
   fst (fst (delete_task never (sample_request ''t1'') sample_server)) = 200 \<and>
   map is_commit (effects_of (delete_task never (sample_request ''t1'')) sample_server) = [False, True] \<and>
   fst (fst (delete_project never (sample_request ''p1'') sample_server)) = 200 \<and>
   effects_of (delete_project never (sample_request ''p1'')) sample_server =
     [Committed (Delete_tasks_of ''p1''),
      Emitted (room_of ''p1'') Project_deleted (Project_deleted_payload ''p1''),
      Committed (Delete_project ''p1'')]"
proof -
  have a1: "fst (fst (post_task never (sample_request []) sample_server)) = 201"
    by (simp add: sample_eval)
  have a2: "fst (fst (post_project never (sample_request []) sample_server)) = 201"
    by (simp add: sample_eval)
  have a3: "fst (fst (post_member never (sample_request ''p1'') sample_server)) = 200"
    by (simp add: sample_eval)
  have a4: "fst (fst (put_task never (sample_request ''t1'') sample_server)) = 200"
    by (simp add: sample_eval)
  have a5: "fst (fst (put_task never (idle_request ''t1'') sample_server)) = 200"
    by (simp add: sample_eval)
  have a6: "fst (fst (put_project never (sample_request ''p1'') sample_server)) = 200"
    by (simp add: sample_eval)
  have a7: "fst (fst (delete_member never (idle_request ''p1'') sample_server)) = 200"
    by (simp add: sample_eval)
  have a8: "fst (fst (delete_task never (sample_request ''t1'') sample_server)) = 200"
    by (simp add: sample_eval)
  have a9: "fst (fst (delete_project never (sample_request ''p1'') sample_server)) = 200"
    by (simp add: sample_eval)
  have b1: "map is_commit (effects_of (post_task never (sample_request [])) sample_server) = [True, False]"
    using a1 publish_order [of never "sample_request []" sample_server] by auto
  have b2: "map is_commit (effects_of (post_project never (sample_request [])) sample_server) = [True, False]"
    using a2 publish_order [of never "sample_request []" sample_server] by auto
  have b3: "map is_commit (effects_of (post_member never (sample_request ''p1'')) sample_server) = [True, False]"
    using a3 publish_order [of never "sample_request ''p1''" sample_server] by auto
  have b4: "map is_commit (effects_of (put_task never (sample_request ''t1'')) sample_server) = [True, False]"
    by (simp add: sample_eval)
  have b5: "map is_commit (effects_of (put_task never (idle_request ''t1'')) sample_server) = [False]"
    by (simp add: sample_eval)
  have b6: "map is_commit (effects_of (put_project never (sample_request ''p1'')) sample_server) = [True, False]"
    by (simp add: sample_eval)
  have b7: "map is_commit (effects_of (delete_member never (idle_request ''p1'')) sample_server) = [False]"
    by (simp add: sample_eval)
  have b8: "map is_commit (effects_of (delete_task never (sample_request ''t1'')) sample_server) = [False, True]"
    using a8 publish_order [of never "sample_request ''t1''" sample_server] by auto
  have p1: "rq_id (sample_request ''p1'') = ''p1''" by (simp add: sample_request_def)
  have b9: "effects_of (delete_project never (sample_request ''p1'')) sample_server =
     [Committed (Delete_tasks_of ''p1''),
      Emitted (room_of ''p1'') Project_deleted (Project_deleted_payload ''p1''),
      Committed (Delete_project ''p1'')]"
    using a9 p1 publish_order [of never "sample_request ''p1''" sample_server] by metis
  have c5: "publishes_after_save sample_server False
     (effects_of (put_task never (idle_request ''t1'')) sample_server)"
    using publish_order [of never "idle_request ''t1''" sample_server] by blast
  show ?thesis
    using a1 a2 a3 a4 a5 a6 a7 a8 a9 b1 b2 b3 b4 b5 b6 b7 b8 b9 c5 by blast
qed

text \<open>
  The claim as it is written, for every mutation route, fails on the two routes that
  delete: their traces publish before the last write, and when the deletion of the
  task then rejects, the event has been published, the route answers 500 and the task
  is still in the collection. It also fails on an update that changes nothing: the
  route publishes, and no write has gone before.
\<close>

theorem delete_publishes_before_commit:
  "effects_of (delete_task never (sample_request ''t1'')) sample_server =
     [Emitted ''project-p1'' Task_deleted (Task_deleted_payload ''t1'' ''p1''),
      Committed (Delete_task ''t1'')] \<and>
   \<not> publishes_after_commit False (effects_of (delete_task never (sample_request ''t1'')) sample_server) \<and>
   effects_of (delete_project never (sample_request ''p1'')) sample_server =
     [Committed (Delete_tasks_of ''p1''),
      Emitted ''project-p1'' Project_deleted (Project_deleted_payload ''p1''),
      Committed (Delete_project ''p1'')] \<and>
   \<not> publishes_after_commit False (effects_of (delete_project never (sample_request ''p1'')) sample_server) \<and>
   fst (delete_task (only 2) (sample_request ''t1'') sample_server) = (500, Message ''Server error'') \<and>
   effects_of (delete_task (only 2) (sample_request ''t1'')) sample_server =
     [Emitted ''project-p1'' Task_deleted (Task_deleted_payload ''t1'' ''p1'')] \<and>
   task_docs (snd (delete_task (only 2) (sample_request ''t1'') sample_server)) = task_docs sample_server \<and>
   fst (fst (put_task never (idle_request ''t1'') sample_server)) = 200 \<and>
   map is_commit (effects_of (put_task never (idle_request ''t1'')) sample_server) = [False] \<and>
   \<not> publishes_after_commit False (effects_of (put_task never (idle_request ''t1'')) sample_server)"
  by (simp add: sample_eval)

section \<open>Removing the owner from the members\<close>

text \<open>
  C9. When the lookup of the route finds the project of the requesting owner and the
  member to remove is that owner, the route answers 400 with
  \<^verbatim>\<open>Cannot remove project owner\<close>, the projects collection (and so the member list) is
  as before, and the request has written nothing and published nothing.
\<close>

theorem remove_owner_rejected:
  assumes "await fails (Project_findOne_owner (rq_id rq) (rq_user rq)) s = (Inr (Some d), s1)"
    and "rq_memberId rq = pd_owner d"
  shows "fst (delete_member fails rq s) = (400, Message ''Cannot remove project owner'') \<and>
         projects (snd (delete_member fails rq s)) = projects s \<and>
         effects_of (delete_member fails rq) s = []"
  using assms unfolding delete_member_def step_defs db_defs
  by (auto split: option.splits if_splits)

theorem remove_owner_rejected_witness:
  "await never (Project_findOne_owner (rq_id (sample_request ''p1'')) (rq_user (sample_request ''p1'')))
      sample_server = (Inr (Some sample_project), sample_server\<lparr>awaited := 1\<rparr>) \<and>
   rq_memberId (sample_request ''p1'') = pd_owner sample_project \<and>
   fst (delete_member never (sample_request ''p1'') sample_server) =
     (400, Message ''Cannot remove project owner'') \<and>
   projects (snd (delete_member never (sample_request ''p1'') sample_server)) = [sample_project] \<and>
   effects_of (delete_member never (sample_request ''p1'')) sample_server = []"
proof -
  have a: "await never (Project_findOne_owner (rq_id (sample_request ''p1'')) (rq_user (sample_request ''p1'')))
      sample_server = (Inr (Some sample_project), sample_server\<lparr>awaited := 1\<rparr>)"
    by (simp add: await_def Project_findOne_owner_def sample_server_defs)
  have b: "rq_memberId (sample_request ''p1'') = pd_owner sample_project"
    by (simp add: sample_server_defs)
  have c: "projects sample_server = [sample_project]"
    by (simp add: sample_server_def)
  show ?thesis
    using a b c remove_owner_rejected [OF a b] by simp
qed

end
